theory Spec2Isabelle
  imports Complex_Main "HOL-Library.Char_ord" "HOL-Library.List_Lexorder"
begin

section \<open>Strings and characters\<close>

text \<open>
  Python strings are modelled as HOL strings (lists of \<^typ>\<open>char\<close>); a character
  stands for the code point with the same number, so the model covers texts whose code
  points lie below 256. On that range the character classes below are the ones of
  Python's \<^verbatim>\<open>str\<close> methods and of the \<^verbatim>\<open>re\<close> module in its default (Unicode) mode.
\<close>

definition code :: "char \<Rightarrow> nat" where
  "code c = of_char c"

definition is_digit :: "char \<Rightarrow> bool" where
  "is_digit c = (48 \<le> code c \<and> code c \<le> 57)"

definition is_upper :: "char \<Rightarrow> bool" where
  "is_upper c = ((65 \<le> code c \<and> code c \<le> 90) \<or> (192 \<le> code c \<and> code c \<le> 222 \<and> code c \<noteq> 215))"

definition is_lower :: "char \<Rightarrow> bool" where
  "is_lower c = ((97 \<le> code c \<and> code c \<le> 122) \<or> (224 \<le> code c \<and> code c \<le> 254 \<and> code c \<noteq> 247))"

text \<open>\<^verbatim>\<open>str.isspace\<close>, also the class \<^verbatim>\<open>\s\<close>: tab to carriage return, the four
  separators 28 to 31, the blank, NEL (133) and the no-break space (160).\<close>

definition is_space :: "char \<Rightarrow> bool" where
  "is_space c = ((9 \<le> code c \<and> code c \<le> 13) \<or> (28 \<le> code c \<and> code c \<le> 32)
                 \<or> code c = 133 \<or> code c = 160)"

definition lower_char :: "char \<Rightarrow> char" where
  "lower_char c = (if is_upper c then char_of (code c + 32) else c)"

definition upper_char :: "char \<Rightarrow> char" where
  "upper_char c = (if is_lower c then char_of (code c - 32) else c)"

text \<open>\<^verbatim>\<open>str.lower()\<close>\<close>

definition lower :: "string \<Rightarrow> string" where
  "lower s = map lower_char s"

text \<open>\<^verbatim>\<open>s.endswith(suffix)\<close>\<close>

definition endswith :: "string \<Rightarrow> string \<Rightarrow> bool" where
  "endswith s suffix = (length suffix \<le> length s \<and> drop (length s - length suffix) s = suffix)"

text \<open>\<^verbatim>\<open>s.strip()\<close>: whitespace removed at both ends.\<close>

definition strip :: "string \<Rightarrow> string" where
  "strip s = rev (dropWhile is_space (rev (dropWhile is_space s)))"

text \<open>\<^verbatim>\<open>s.split(sep)\<close> for a one-character separator: the result is never empty.\<close>

fun split :: "char \<Rightarrow> string \<Rightarrow> string list" where
  "split sep [] = [[]]"
| "split sep (c # cs) =
     (if c = sep then [] # split sep cs
      else (case split sep cs of l # ls \<Rightarrow> (c # l) # ls | [] \<Rightarrow> [[c]]))"

text \<open>\<^verbatim>\<open>s.replace(a, b)\<close> for one-character \<open>a\<close>; \<open>b\<close> is a string, possibly empty.\<close>

definition replace :: "char \<Rightarrow> string \<Rightarrow> string \<Rightarrow> string" where
  "replace a b s = concat (map (\<lambda>c. if c = a then b else [c]) s)"

text \<open>\<^verbatim>\<open>keyword in s\<close>: substring test.\<close>

fun contains :: "string \<Rightarrow> string \<Rightarrow> bool" where
  "contains kw [] = (kw = [])"
| "contains kw (c # cs) = (take (length kw) (c # cs) = kw \<or> contains kw cs)"

text \<open>
  \<^verbatim>\<open>float(s)\<close> on the strings that reach it in this program: decimal digits with an
  optional fraction (the number pattern with its commas removed). The model returns the
  exact decimal value as a real number; rounding to a double is not modelled. \<open>None\<close>
  stands for Python's \<^verbatim>\<open>ValueError\<close>.
\<close>

definition digit_val :: "char \<Rightarrow> nat" where
  "digit_val c = code c - 48"

definition nat_of_digits :: "string \<Rightarrow> nat" where
  "nat_of_digits s = foldl (\<lambda>n c. 10 * n + digit_val c) 0 s"

definition py_float :: "string \<Rightarrow> real option" where
  "py_float s =
     (let ip = takeWhile is_digit s; rest = dropWhile is_digit s in
      case rest of
        [] \<Rightarrow> if ip = [] then None else Some (real (nat_of_digits ip))
      | c # fp \<Rightarrow>
          if c = CHR ''.'' \<and> list_all is_digit fp \<and> (ip \<noteq> [] \<or> fp \<noteq> [])
          then Some (real (nat_of_digits ip) + real (nat_of_digits fp) / 10 ^ length fp)
          else None)"

section \<open>Regular expressions\<close>

text \<open>
  The patterns of the source are kept as terms of a small regular-expression type and
  run by a backtracking matcher with the priorities of Python's \<^verbatim>\<open>re\<close>: the
  matcher returns every way to match at the current position, best first (left
  alternative before right, greedy repetition longest first, lazy repetition shortest
  first), so the head of the list is the match \<^verbatim>\<open>re\<close> reports. A state is the text
  still to be read and the groups captured so far.
\<close>

record flags =
  ignorecase :: bool
  dotall :: bool

datatype citem = Single char | Range char char | Digit | Space

datatype rx =
    Eps
  | Cls "citem list"
  | Dot
  | Seq rx rx
  | Alt rx rx
  | Star rx
  | LazyStar rx
  | Grp nat rx
  | Ahead rx
  | EndZ

fun in_item :: "citem \<Rightarrow> char \<Rightarrow> bool" where
  "in_item (Single a) c = (c = a)"
| "in_item (Range lo hi) c = (code lo \<le> code c \<and> code c \<le> code hi)"
| "in_item Digit c = is_digit c"
| "in_item Space c = is_space c"

text \<open>Under \<^verbatim>\<open>re.IGNORECASE\<close> a character also matches through its lower-case or
  upper-case form.\<close>

definition in_class :: "flags \<Rightarrow> citem list \<Rightarrow> char \<Rightarrow> bool" where
  "in_class fl items c =
     list_ex (\<lambda>i. in_item i c \<or>
        (ignorecase fl \<and> (in_item i (lower_char c) \<or> in_item i (upper_char c)))) items"

type_synonym groups = "nat \<rightharpoonup> string"
type_synonym mstate = "string \<times> groups"

function rx_match :: "flags \<Rightarrow> rx \<Rightarrow> mstate \<Rightarrow> mstate list" where
  "rx_match fl Eps st = [st]"
| "rx_match fl (Cls items) st =
     (case fst st of [] \<Rightarrow> [] | c # cs \<Rightarrow> if in_class fl items c then [(cs, snd st)] else [])"
| "rx_match fl Dot st =
     (case fst st of [] \<Rightarrow> []
      | c # cs \<Rightarrow> if dotall fl \<or> c \<noteq> CHR 0x0A then [(cs, snd st)] else [])"
| "rx_match fl (Seq a b) st = concat (map (rx_match fl b) (rx_match fl a st))"
| "rx_match fl (Alt a b) st = rx_match fl a st @ rx_match fl b st"
| "rx_match fl (Star r) st =
     concat (map (rx_match fl (Star r))
                 (filter (\<lambda>st'. length (fst st') < length (fst st)) (rx_match fl r st))) @ [st]"
| "rx_match fl (LazyStar r) st =
     st # concat (map (rx_match fl (LazyStar r))
                 (filter (\<lambda>st'. length (fst st') < length (fst st)) (rx_match fl r st)))"
| "rx_match fl (Grp n r) st =
     map (\<lambda>st'. (fst st', (snd st')(n \<mapsto> take (length (fst st) - length (fst st')) (fst st))))
         (rx_match fl r st)"
| "rx_match fl (Ahead r) st = (if rx_match fl r st = [] then [] else [st])"
| "rx_match fl EndZ st = (if fst st = [] then [st] else [])"
  by pat_completeness auto
termination
  by (relation "measures [\<lambda>(fl, r, st). size r, \<lambda>(fl, r, st). length (fst st)]") auto

text \<open>The two repetition equations unfold without end on a text that is not given
  explicitly; proofs apply them by hand.\<close>

declare rx_match.simps(6,7) [simp del]

text \<open>Derived forms: a literal string, \<^verbatim>\<open>r?\<close>, \<^verbatim>\<open>r+\<close> and \<^verbatim>\<open>r{m,n}\<close> (all greedy).\<close>

definition lit :: "string \<Rightarrow> rx" where
  "lit s = foldr (\<lambda>c r. Seq (Cls [Single c]) r) s Eps"

definition Opt :: "rx \<Rightarrow> rx" where
  "Opt r = Alt r Eps"

definition Plus :: "rx \<Rightarrow> rx" where
  "Plus r = Seq r (Star r)"

fun Rep :: "nat \<Rightarrow> nat \<Rightarrow> rx \<Rightarrow> rx" where
  "Rep 0 0 r = Eps"
| "Rep 0 (Suc n) r = Opt (Seq r (Rep 0 n r))"
| "Rep (Suc m) n r = Seq r (Rep m (n - 1) r)"

text \<open>A match object: where the match starts, the text it covers, its groups.\<close>

record match =
  start :: nat
  matched :: string
  group :: groups

text \<open>\<^verbatim>\<open>re.search\<close>: the first position, from the left, at which the pattern matches.\<close>

fun re_search_from :: "flags \<Rightarrow> rx \<Rightarrow> nat \<Rightarrow> string \<Rightarrow> match option" where
  "re_search_from fl r pos [] =
     (case rx_match fl r ([], Map.empty) of
        st # _ \<Rightarrow> Some \<lparr>start = pos, matched = [], group = snd st\<rparr>
      | [] \<Rightarrow> None)"
| "re_search_from fl r pos (c # t) =
     (case rx_match fl r (c # t, Map.empty) of
        st # _ \<Rightarrow> Some \<lparr>start = pos, matched = take (length (c # t) - length (fst st)) (c # t),
                          group = snd st\<rparr>
      | [] \<Rightarrow> re_search_from fl r (Suc pos) t)"

definition re_search :: "flags \<Rightarrow> rx \<Rightarrow> string \<Rightarrow> match option" where
  "re_search fl r s = re_search_from fl r 0 s"

text \<open>\<^verbatim>\<open>re.finditer\<close>: the successive non-overlapping matches, left to right. After an
  empty match the scan moves one character on (no pattern of this program matches the
  empty string).\<close>

function finditer_from :: "flags \<Rightarrow> rx \<Rightarrow> nat \<Rightarrow> string \<Rightarrow> match list" where
  "finditer_from fl r pos s =
     (case rx_match fl r (s, Map.empty) of
        st # _ \<Rightarrow>
          (let n = length s - length (fst st) in
           \<lparr>start = pos, matched = take n s, group = snd st\<rparr> #
           (if n = 0 then (case s of [] \<Rightarrow> [] | _ # t \<Rightarrow> finditer_from fl r (Suc pos) t)
            else finditer_from fl r (pos + n) (drop n s)))
      | [] \<Rightarrow> (case s of [] \<Rightarrow> [] | _ # t \<Rightarrow> finditer_from fl r (Suc pos) t))"
  by pat_completeness auto
termination
  by (relation "measure (\<lambda>(fl, r, pos, s). length s)") auto

declare finditer_from.simps [simp del]

definition finditer :: "flags \<Rightarrow> rx \<Rightarrow> string \<Rightarrow> match list" where
  "finditer fl r s = finditer_from fl r 0 s"

definition no_flags :: flags where
  "no_flags = \<lparr>ignorecase = False, dotall = False\<rparr>"

definition IGNORECASE :: flags where
  "IGNORECASE = \<lparr>ignorecase = True, dotall = False\<rparr>"

definition DOTALL_IGNORECASE :: flags where
  "DOTALL_IGNORECASE = \<lparr>ignorecase = True, dotall = True\<rparr>"

section \<open>Errors\<close>

text \<open>The exceptions that the modelled code can raise. \<open>LoadError\<close> stands for whatever
  the PDF library raises when it opens a source that is not a readable PDF.\<close>

datatype error = FileNotFoundError | ValueError | AttributeError | KeyError | TypeError | LoadError

section \<open>The PDF source (external collaborator)\<close>

text \<open>
  The PDF layout engine is outside the repository. A file is either structurally invalid
  or a sequence of pages; a page yields a text (empty when the engine finds none) and a
  list of raw tables, each a list of rows of cells, a cell being a string or \<^verbatim>\<open>None\<close>.
  The file system maps the paths that exist to their files.
\<close>

type_synonym cell = "string option"
type_synonym raw_table = "cell list list"

record page =
  page_text :: string
  page_tables :: "raw_table list"

datatype pdf_file = Invalid | Pdf "page list"

type_synonym filesystem = "string \<rightharpoonup> pdf_file"

section \<open>PDFExtractor\<close>

text \<open>\<^verbatim>\<open>os.path.exists(path)\<close>\<close>

definition path_exists :: "filesystem \<Rightarrow> string \<Rightarrow> bool" where
  "path_exists fs path = (fs path \<noteq> None)"

text \<open>\<^verbatim>\<open>PDFExtractor._validate_file\<close>: the two checks in the order of the source.\<close>

definition validate_file :: "filesystem \<Rightarrow> string \<Rightarrow> error + unit" where
  "validate_file fs pdf_path =
     (if \<not> path_exists fs pdf_path then Inl FileNotFoundError
      else if \<not> endswith (lower pdf_path) ''.pdf'' then Inl ValueError
      else Inr ())"

text \<open>\<^verbatim>\<open>PDFExtractor.__init__\<close>, inherited unchanged by \<^verbatim>\<open>InvoiceExtractor\<close> and
  \<^verbatim>\<open>ReportExtractor\<close>: the object holds the path, and exists only if validation passed.\<close>

record extractor =
  pdf_path :: string

definition new_extractor :: "filesystem \<Rightarrow> string \<Rightarrow> error + extractor" where
  "new_extractor fs path =
     (case validate_file fs path of
        Inl e \<Rightarrow> Inl e
      | Inr _ \<Rightarrow> Inr \<lparr>pdf_path = path\<rparr>)"

text \<open>\<^verbatim>\<open>pdfplumber.open\<close>: fails on a path that is gone and on a source that is not a
  readable PDF.\<close>

definition open_pdf :: "filesystem \<Rightarrow> string \<Rightarrow> error + page list" where
  "open_pdf fs path =
     (case fs path of
        None \<Rightarrow> Inl FileNotFoundError
      | Some Invalid \<Rightarrow> Inl LoadError
      | Some (Pdf ps) \<Rightarrow> Inr ps)"

text \<open>\<^verbatim>\<open>PDFExtractor.extract_text\<close>: the texts of the pages that have one.\<close>

definition extract_text :: "filesystem \<Rightarrow> extractor \<Rightarrow> error + string list" where
  "extract_text fs self =
     (case open_pdf fs (pdf_path self) of
        Inl e \<Rightarrow> Inl e
      | Inr ps \<Rightarrow> Inr (filter (\<lambda>t. t \<noteq> []) (map page_text ps)))"

text \<open>\<^verbatim>\<open>PDFExtractor.extract_tables\<close>: every non-empty raw table becomes a frame with the
  first row as column labels and the other rows as body.\<close>

record table =
  columns :: "cell list"
  body :: "cell list list"

definition extract_tables :: "filesystem \<Rightarrow> extractor \<Rightarrow> error + table list" where
  "extract_tables fs self =
     (case open_pdf fs (pdf_path self) of
        Inl e \<Rightarrow> Inl e
      | Inr ps \<Rightarrow>
          Inr (concat (map (\<lambda>p. concat (map (\<lambda>t. case t of [] \<Rightarrow> []
                                                  | h # rows \<Rightarrow> [\<lparr>columns = h, body = rows\<rparr>])
                                         (page_tables p))) ps)))"

section \<open>The patterns of the extractors\<close>

text \<open>\<^verbatim>\<open>\d{1,3}(?:,\d{3})*(?:\.\d{2})?\<close>\<close>

definition number_rx :: rx where
  "number_rx =
     Seq (Rep 1 3 (Cls [Digit]))
    (Seq (Star (Seq (Cls [Single CHR '','']) (Rep 3 3 (Cls [Digit]))))
         (Opt (Seq (Cls [Single CHR ''.'']) (Rep 2 2 (Cls [Digit])))))"

text \<open>\<^verbatim>\<open>Invoice\s*#?:?\s*([A-Z0-9\-]+)\<close>\<close>

definition invoice_rx :: rx where
  "invoice_rx =
     Seq (lit ''Invoice'')
    (Seq (Star (Cls [Space]))
    (Seq (Opt (Cls [Single CHR ''#'']))
    (Seq (Opt (Cls [Single CHR '':'']))
    (Seq (Star (Cls [Space]))
         (Grp 1 (Plus (Cls [Range CHR ''A'' CHR ''Z'', Range CHR ''0'' CHR ''9'', Single CHR ''-''])))))))"

text \<open>\<^verbatim>\<open>Date:?\s*(\d{1,2}[\/\-\.]\d{1,2}[\/\-\.]\d{2,4})\<close>\<close>

definition date_sep :: rx where
  "date_sep = Cls [Single CHR ''/'', Single CHR ''-'', Single CHR ''.'']"

definition date_rx :: rx where
  "date_rx =
     Seq (lit ''Date'')
    (Seq (Opt (Cls [Single CHR '':'']))
    (Seq (Star (Cls [Space]))
         (Grp 1 (Seq (Rep 1 2 (Cls [Digit]))
                (Seq date_sep
                (Seq (Rep 1 2 (Cls [Digit]))
                (Seq date_sep
                     (Rep 2 4 (Cls [Digit])))))))))"

text \<open>\<^verbatim>\<open>Total:?\s*\$?(\d{1,3}(?:,\d{3})*(?:\.\d{2})?)|\$(\d{1,3}(?:,\d{3})*(?:\.\d{2})?)\<close>:
  the bar separates the whole left side from the whole right side.\<close>

definition total_alt :: rx where
  "total_alt =
     Seq (lit ''Total'')
    (Seq (Opt (Cls [Single CHR '':'']))
    (Seq (Star (Cls [Space]))
    (Seq (Opt (Cls [Single CHR ''$'']))
         (Grp 1 number_rx))))"

definition dollar_alt :: rx where
  "dollar_alt = Seq (Cls [Single CHR ''$'']) (Grp 2 number_rx)"

definition amount_rx :: rx where
  "amount_rx = Alt total_alt dollar_alt"

text \<open>\<^verbatim>\<open>([A-Za-z\s]+):\s*\$?(\d{1,3}(?:,\d{3})*(?:\.\d{2})?)\<close>\<close>

definition label_class :: "citem list" where
  "label_class = [Range CHR ''A'' CHR ''Z'', Range CHR ''a'' CHR ''z'', Space]"

definition metric_rx :: rx where
  "metric_rx =
     Seq (Grp 1 (Plus (Cls label_class)))
    (Seq (Cls [Single CHR '':''])
    (Seq (Star (Cls [Space]))
    (Seq (Opt (Cls [Single CHR ''$'']))
         (Grp 2 number_rx))))"

text \<open>\<^verbatim>\<open>(?:Summary|Abstract|Executive\s+Summary):(.*?)(?=\n\n|\n[A-Z]|\Z)\<close>\<close>

definition newline :: char where
  "newline = CHR 0x0A"

definition summary_rx :: rx where
  "summary_rx =
     Seq (Alt (lit ''Summary'')
         (Alt (lit ''Abstract'')
              (Seq (lit ''Executive'') (Seq (Plus (Cls [Space])) (lit ''Summary'')))))
    (Seq (Cls [Single CHR '':''])
    (Seq (Grp 1 (LazyStar Dot))
         (Ahead (Alt (Seq (Cls [Single newline]) (Cls [Single newline]))
                (Alt (Seq (Cls [Single newline]) (Cls [Range CHR ''A'' CHR ''Z'']))
                     EndZ)))))"

section \<open>InvoiceExtractor\<close>

text \<open>A line item maps the column labels of its table to the cells of one row.\<close>

type_synonym line_item = "(cell \<times> cell) list"

record invoice_data =
  invoice_number :: "string option"
  invoice_date :: "string option"
  total_amount :: "real option"
  vendor :: "string option"
  line_items :: "line_item list"

text \<open>\<^verbatim>\<open>a or b\<close> on two optional strings, and the truth value of an optional string.\<close>

definition py_or :: "string option \<Rightarrow> string option \<Rightarrow> string option" where
  "py_or a b = (case a of Some s \<Rightarrow> if s \<noteq> [] then Some s else b | None \<Rightarrow> b)"

definition truthy :: "string option \<Rightarrow> bool" where
  "truthy a = (case a of Some s \<Rightarrow> s \<noteq> [] | None \<Rightarrow> False)"

text \<open>The amount step of \<^verbatim>\<open>extract_invoice_data\<close>: search; on a match take group 1 or
  else group 2, remove the commas, convert. \<open>Inr None\<close> leaves the field unset.\<close>

definition amount_of_match :: "match \<Rightarrow> error + real option" where
  "amount_of_match amount_match =
     (let amount = py_or (group amount_match 1) (group amount_match 2) in
      case amount of
        None \<Rightarrow> Inr None
      | Some a \<Rightarrow>
          if a = [] then Inr None
          else (case py_float (replace CHR '','' [] a) of
                  None \<Rightarrow> Inl ValueError
                | Some v \<Rightarrow> Inr (Some v)))"

definition extract_amount :: "string \<Rightarrow> error + real option" where
  "extract_amount text =
     (case re_search IGNORECASE amount_rx text of
        None \<Rightarrow> Inr None
      | Some amount_match \<Rightarrow> amount_of_match amount_match)"

text \<open>The vendor step: \<^verbatim>\<open>lines = text.split('\n')\<close>, then \<^verbatim>\<open>lines[0].strip()\<close> if there
  are lines.\<close>

definition first_line :: "string \<Rightarrow> string option" where
  "first_line text = (case split newline text of [] \<Rightarrow> None | l # _ \<Rightarrow> Some (strip l))"

text \<open>The line-item step. The keyword test calls \<^verbatim>\<open>col.lower()\<close> on every column label
  of every table, which raises \<^verbatim>\<open>AttributeError\<close> on a label that is \<^verbatim>\<open>None\<close>.\<close>

definition price_keywords :: "string list" where
  "price_keywords = [''price'', ''amount'', ''total'', ''cost'']"

definition price_columns :: "table \<Rightarrow> error + cell list" where
  "price_columns t =
     (if list_ex (\<lambda>col. col = None) (columns t) then Inl AttributeError
      else Inr (filter (\<lambda>col. case col of None \<Rightarrow> False
                              | Some name \<Rightarrow> list_ex (\<lambda>keyword. contains keyword (lower name))
                                                    price_keywords)
                       (columns t)))"

fun collect_line_items :: "table list \<Rightarrow> error + line_item list" where
  "collect_line_items [] = Inr []"
| "collect_line_items (t # ts) =
     (case price_columns t of
        Inl e \<Rightarrow> Inl e
      | Inr cols \<Rightarrow>
          (case collect_line_items ts of
             Inl e \<Rightarrow> Inl e
           | Inr items \<Rightarrow>
               Inr ((if cols \<noteq> [] then map (\<lambda>row. zip (columns t) row) (body t) else []) @ items)))"

definition empty_invoice :: invoice_data where
  "empty_invoice = \<lparr>invoice_number = None, invoice_date = None, total_amount = None,
                    vendor = None, line_items = []\<rparr>"

definition extract_invoice_data :: "filesystem \<Rightarrow> extractor \<Rightarrow> error + invoice_data" where
  "extract_invoice_data fs self =
     (case extract_text fs self of
        Inl e \<Rightarrow> Inl e
      | Inr pages \<Rightarrow>
          (case pages of
             [] \<Rightarrow> Inr empty_invoice
           | text # _ \<Rightarrow>
               (let invoice_match = re_search IGNORECASE invoice_rx text;
                    number = (case invoice_match of None \<Rightarrow> None
                              | Some m \<Rightarrow> map_option strip (group m 1));
                    date_match = re_search IGNORECASE date_rx text;
                    date = (case date_match of None \<Rightarrow> None | Some m \<Rightarrow> group m 1)
                in case extract_amount text of
                     Inl e \<Rightarrow> Inl e
                   | Inr amount \<Rightarrow>
                       (case extract_tables fs self of
                          Inl e \<Rightarrow> Inl e
                        | Inr tables \<Rightarrow>
                            (case collect_line_items tables of
                               Inl e \<Rightarrow> Inl e
                             | Inr items \<Rightarrow>
                                 Inr \<lparr>invoice_number = number, invoice_date = date,
                                      total_amount = amount, vendor = first_line text,
                                      line_items = items\<rparr>)))))"

section \<open>ReportExtractor\<close>

datatype metric_value = Number real | Text string

record report_data =
  title :: "string option"
  report_date :: "string option"
  summary :: "string option"
  key_metrics :: "(string \<times> metric_value) list"
  tables :: "table list"

text \<open>\<^verbatim>\<open>d[k] = v\<close> on a dictionary kept as an association list in insertion order.\<close>

fun dict_set :: "('k \<times> 'v) list \<Rightarrow> 'k \<Rightarrow> 'v \<Rightarrow> ('k \<times> 'v) list" where
  "dict_set [] k v = [(k, v)]"
| "dict_set ((k', v') # d) k v = (if k' = k then (k, v) # d else (k', v') # dict_set d k v)"

text \<open>One round of the metric loop: key from group 1, value from group 2 without commas,
  as a float, or as the string itself when \<^verbatim>\<open>float\<close> raises.\<close>

definition add_metric :: "(string \<times> metric_value) list \<Rightarrow> match \<Rightarrow> (string \<times> metric_value) list" where
  "add_metric metrics m =
     (let key = strip (case group m 1 of Some s \<Rightarrow> s | None \<Rightarrow> []);
          v = replace CHR '','' [] (case group m 2 of Some s \<Rightarrow> s | None \<Rightarrow> [])
      in dict_set metrics key (case py_float v of Some x \<Rightarrow> Number x | None \<Rightarrow> Text v))"

definition extract_key_metrics :: "string \<Rightarrow> (string \<times> metric_value) list" where
  "extract_key_metrics text = foldl add_metric [] (finditer no_flags metric_rx text)"

definition extract_report_data :: "filesystem \<Rightarrow> extractor \<Rightarrow> error + report_data" where
  "extract_report_data fs self =
     (case extract_text fs self of
        Inl e \<Rightarrow> Inl e
      | Inr pages \<Rightarrow>
          (case extract_tables fs self of
             Inl e \<Rightarrow> Inl e
           | Inr tbls \<Rightarrow>
               (case pages of
                  [] \<Rightarrow> Inr \<lparr>title = None, report_date = None, summary = None,
                             key_metrics = [], tables = tbls\<rparr>
                | text # _ \<Rightarrow>
                    (let date_match = re_search IGNORECASE date_rx text;
                         summary_match = re_search DOTALL_IGNORECASE summary_rx text
                     in Inr \<lparr>title = first_line text,
                             report_date = (case date_match of None \<Rightarrow> None | Some m \<Rightarrow> group m 1),
                             summary = (case summary_match of None \<Rightarrow> None
                                        | Some m \<Rightarrow> map_option strip (group m 1)),
                             key_metrics = extract_key_metrics text,
                             tables = tbls\<rparr>))))"

section \<open>Dates (external collaborator: the data-frame library)\<close>

text \<open>
  \<^verbatim>\<open>pd.to_datetime(column, format=f, errors='ignore')\<close> belongs to the data-frame library.
  It is modelled from the library's documented behaviour: a column that already holds
  timestamps is returned as it is; otherwise every non-null value is parsed with the
  format, and if one of them fails the input column is returned unchanged. One value is
  parsed the way \<^verbatim>\<open>strptime\<close> does it: the format is turned into a pattern
  (\<^verbatim>\<open>%m\<close> is \<^verbatim>\<open>1[0-2]|0[1-9]|[1-9]\<close>, \<^verbatim>\<open>%d\<close> is \<^verbatim>\<open>3[0-1]|[1-2]\d|0[1-9]|[1-9]| [1-9]\<close>,
  \<^verbatim>\<open>%Y\<close> is \<^verbatim>\<open>\d\d\d\d\<close>), the pattern must match at the start and consume the whole
  string, the day must exist in the month, and the date must lie in the range of
  nanosecond timestamps (1677-09-22 to 2262-04-11).
\<close>

record timestamp =
  year :: nat
  month :: nat
  day :: nat

datatype date_format = MDY char | DMY char

text \<open>The list in \<^verbatim>\<open>process_invoice_data\<close> and \<^verbatim>\<open>process_report_data\<close>:
  \<^verbatim>\<open>['%m/%d/%Y', '%d/%m/%Y', '%m-%d-%Y', '%d-%m-%Y', '%m.%d.%Y', '%d.%m.%Y']\<close>\<close>

definition date_formats :: "date_format list" where
  "date_formats = [MDY CHR ''/'', DMY CHR ''/'', MDY CHR ''-'', DMY CHR ''-'',
                   MDY CHR ''.'', DMY CHR ''.'']"

definition month_rx :: rx where
  "month_rx = Alt (Seq (Cls [Single CHR ''1'']) (Cls [Range CHR ''0'' CHR ''2'']))
             (Alt (Seq (Cls [Single CHR ''0'']) (Cls [Range CHR ''1'' CHR ''9'']))
                  (Cls [Range CHR ''1'' CHR ''9'']))"

definition day_rx :: rx where
  "day_rx = Alt (Seq (Cls [Single CHR ''3'']) (Cls [Range CHR ''0'' CHR ''1'']))
           (Alt (Seq (Cls [Range CHR ''1'' CHR ''2'']) (Cls [Digit]))
           (Alt (Seq (Cls [Single CHR ''0'']) (Cls [Range CHR ''1'' CHR ''9'']))
           (Alt (Cls [Range CHR ''1'' CHR ''9''])
                (Seq (Cls [Single CHR '' '']) (Cls [Range CHR ''1'' CHR ''9''])))))"

definition year_rx :: rx where
  "year_rx = Rep 4 4 (Cls [Digit])"

text \<open>Group 1 is the month, group 2 the day, group 3 the year.\<close>

fun format_rx :: "date_format \<Rightarrow> rx" where
  "format_rx (MDY sep) =
     Seq (Grp 1 month_rx) (Seq (Cls [Single sep])
    (Seq (Grp 2 day_rx) (Seq (Cls [Single sep]) (Grp 3 year_rx))))"
| "format_rx (DMY sep) =
     Seq (Grp 2 day_rx) (Seq (Cls [Single sep])
    (Seq (Grp 1 month_rx) (Seq (Cls [Single sep]) (Grp 3 year_rx))))"

definition leap_year :: "nat \<Rightarrow> bool" where
  "leap_year y = (y mod 4 = 0 \<and> (y mod 100 \<noteq> 0 \<or> y mod 400 = 0))"

definition days_in_month :: "nat \<Rightarrow> nat \<Rightarrow> nat" where
  "days_in_month y m =
     (if m = 2 then (if leap_year y then 29 else 28)
      else if m = 4 \<or> m = 6 \<or> m = 9 \<or> m = 11 then 30 else 31)"

definition in_bounds :: "timestamp \<Rightarrow> bool" where
  "in_bounds t =
     ((1677 < year t \<or> (year t = 1677 \<and> (9 < month t \<or> (month t = 9 \<and> 22 \<le> day t)))) \<and>
      (year t < 2262 \<or> (year t = 2262 \<and> (month t < 4 \<or> (month t = 4 \<and> day t \<le> 11)))))"

definition group_int :: "groups \<Rightarrow> nat \<Rightarrow> nat" where
  "group_int g n = (case g n of None \<Rightarrow> 0 | Some s \<Rightarrow> nat_of_digits (filter is_digit s))"

definition strptime :: "date_format \<Rightarrow> string \<Rightarrow> timestamp option" where
  "strptime f s =
     (case rx_match IGNORECASE (format_rx f) (s, Map.empty) of
        [] \<Rightarrow> None
      | st # _ \<Rightarrow>
          if fst st \<noteq> [] then None
          else (let t = \<lparr>year = group_int (snd st) 3, month = group_int (snd st) 1,
                         day = group_int (snd st) 2\<rparr>
                in if day t \<le> days_in_month (year t) (month t) \<and> in_bounds t
                   then Some t else None))"

text \<open>A date column holds the raw values (strings or \<^verbatim>\<open>None\<close>, dtype object) or timestamps
  (\<^verbatim>\<open>NaT\<close> for a missing one, dtype datetime64).\<close>

datatype date_column = Raw "string option list" | Dates "timestamp option list"

definition parses_all :: "date_format \<Rightarrow> string option list \<Rightarrow> bool" where
  "parses_all f xs = list_all (\<lambda>x. case x of None \<Rightarrow> True | Some s \<Rightarrow> strptime f s \<noteq> None) xs"

definition parse_column :: "date_format \<Rightarrow> string option list \<Rightarrow> timestamp option list" where
  "parse_column f xs = map (\<lambda>x. case x of None \<Rightarrow> None | Some s \<Rightarrow> strptime f s) xs"

definition to_datetime :: "date_format \<Rightarrow> date_column \<Rightarrow> date_column" where
  "to_datetime f col =
     (case col of
        Dates ts \<Rightarrow> Dates ts
      | Raw xs \<Rightarrow> if parses_all f xs then Dates (parse_column f xs) else Raw xs)"

text \<open>\<^verbatim>\<open>df['date'].isna().all()\<close>\<close>

definition isna_all :: "'a option list \<Rightarrow> bool" where
  "isna_all xs = list_all (\<lambda>x. x = None) xs"

text \<open>The date block shared by both tabulations: guarded by \<^verbatim>\<open>not isna().all()\<close>, one
  \<^verbatim>\<open>to_datetime\<close> per format, each result assigned back to the column.\<close>

definition convert_dates :: "string option list \<Rightarrow> date_column" where
  "convert_dates xs =
     (if \<not> isna_all xs then fold to_datetime date_formats (Raw xs) else Raw xs)"

section \<open>DataProcessor\<close>

text \<open>The dictionaries handed to the processor are the records of the two extractors.
  \<^verbatim>\<open>data.get(key)\<close> answers \<^verbatim>\<open>None\<close> for a key the record does not have.\<close>

datatype extracted = Invoice invoice_data | Report report_data

definition get_invoice_number :: "extracted \<Rightarrow> string option" where
  "get_invoice_number d = (case d of Invoice i \<Rightarrow> invoice_number i | Report r \<Rightarrow> None)"

definition get_date :: "extracted \<Rightarrow> string option" where
  "get_date d = (case d of Invoice i \<Rightarrow> invoice_date i | Report r \<Rightarrow> report_date r)"

definition get_vendor :: "extracted \<Rightarrow> string option" where
  "get_vendor d = (case d of Invoice i \<Rightarrow> vendor i | Report r \<Rightarrow> None)"

definition get_total_amount :: "extracted \<Rightarrow> real option" where
  "get_total_amount d = (case d of Invoice i \<Rightarrow> total_amount i | Report r \<Rightarrow> None)"

definition get_line_items :: "extracted \<Rightarrow> line_item list" where
  "get_line_items d = (case d of Invoice i \<Rightarrow> line_items i | Report r \<Rightarrow> [])"

definition get_title :: "extracted \<Rightarrow> string option" where
  "get_title d = (case d of Invoice i \<Rightarrow> None | Report r \<Rightarrow> title r)"

definition get_summary :: "extracted \<Rightarrow> string option" where
  "get_summary d = (case d of Invoice i \<Rightarrow> None | Report r \<Rightarrow> summary r)"

definition get_tables :: "extracted \<Rightarrow> table list" where
  "get_tables d = (case d of Invoice i \<Rightarrow> [] | Report r \<Rightarrow> tables r)"

definition get_key_metrics :: "extracted \<Rightarrow> (string \<times> metric_value) list" where
  "get_key_metrics d = (case d of Invoice i \<Rightarrow> [] | Report r \<Rightarrow> key_metrics r)"

text \<open>The invoice frame: one list per column, one entry per row. \<open>index_by_number\<close> says
  that \<^verbatim>\<open>set_index('invoice_number')\<close> was applied, so that the rows are labelled by
  that column; otherwise they are labelled by position.\<close>

record invoice_frame =
  index_by_number :: bool
  col_invoice_number :: "string option list"
  col_date :: date_column
  col_vendor :: "string option list"
  col_total_amount :: "real option list"
  col_line_item_count :: "nat list"

text \<open>The report frame: the four fixed columns and one column per metric key, in the
  order in which the keys are first met; a row without the key holds \<^verbatim>\<open>NaN\<close> there.\<close>

record report_frame =
  col_title :: "string option list"
  col_report_date :: date_column
  col_summary :: "string option list"
  col_table_count :: "nat list"
  col_metrics :: "(string \<times> metric_value option list) list"

text \<open>\<open>NoFrame\<close> is \<^verbatim>\<open>pd.DataFrame()\<close>, the frame with no rows and no columns.\<close>

datatype dataframe = NoFrame | InvoiceFrame invoice_frame | ReportFrame report_frame

text \<open>\<^verbatim>\<open>df.empty\<close>: some axis has length 0. The frames above always have columns.\<close>

definition frame_empty :: "dataframe \<Rightarrow> bool" where
  "frame_empty df =
     (case df of
        NoFrame \<Rightarrow> True
      | InvoiceFrame f \<Rightarrow> col_line_item_count f = []
      | ReportFrame f \<Rightarrow> col_table_count f = [])"

record processor =
  data_list :: "extracted list"
  processed_data :: dataframe

text \<open>\<^verbatim>\<open>DataProcessor.__init__\<close> and \<^verbatim>\<open>add_data\<close>\<close>

definition new_processor :: "extracted list \<Rightarrow> processor" where
  "new_processor ds = \<lparr>data_list = ds, processed_data = NoFrame\<rparr>"

definition add_data :: "processor \<Rightarrow> extracted \<Rightarrow> processor" where
  "add_data self d = self\<lparr>data_list := data_list self @ [d]\<rparr>"

text \<open>\<^verbatim>\<open>process_invoice_data\<close> returns the frame and the processor after the call. With an
  empty list it returns a fresh empty frame and leaves the processor as it was.\<close>

definition process_invoice_data :: "processor \<Rightarrow> dataframe \<times> processor" where
  "process_invoice_data self =
     (if data_list self = [] then (NoFrame, self)
      else
        (let ds = data_list self;
             numbers = map get_invoice_number ds;
             df = InvoiceFrame
                    \<lparr>index_by_number = (\<not> isna_all numbers),
                     col_invoice_number = numbers,
                     col_date = convert_dates (map get_date ds),
                     col_vendor = map get_vendor ds,
                     col_total_amount = map get_total_amount ds,
                     col_line_item_count = map (\<lambda>d. length (get_line_items d)) ds\<rparr>
         in (df, self\<lparr>processed_data := df\<rparr>)))"

text \<open>The metric part of one row of \<^verbatim>\<open>process_report_data\<close>:
  \<^verbatim>\<open>report_dict[f'metric_{safe_key}'] = value\<close> for every metric, in order.\<close>

definition safe_key :: "string \<Rightarrow> string" where
  "safe_key k = lower (replace CHR '' '' ''_'' k)"

definition row_metrics :: "extracted \<Rightarrow> (string \<times> metric_value) list" where
  "row_metrics d =
     foldl (\<lambda>report_dict (k, v). dict_set report_dict (''metric_'' @ safe_key k) v) []
           (get_key_metrics d)"

text \<open>The columns that \<^verbatim>\<open>pd.DataFrame(report_info)\<close> builds for the metric keys.\<close>

definition first_seen :: "'a list \<Rightarrow> 'a list" where
  "first_seen xs = rev (remdups (rev xs))"

definition metric_columns :: "extracted list \<Rightarrow> (string \<times> metric_value option list) list" where
  "metric_columns ds =
     map (\<lambda>name. (name, map (\<lambda>d. map_of (row_metrics d) name) ds))
         (first_seen (concat (map (\<lambda>d. map fst (row_metrics d)) ds)))"

definition process_report_data :: "processor \<Rightarrow> dataframe \<times> processor" where
  "process_report_data self =
     (if data_list self = [] then (NoFrame, self)
      else
        (let ds = data_list self;
             df = ReportFrame
                    \<lparr>col_title = map get_title ds,
                     col_report_date = convert_dates (map get_date ds),
                     col_summary = map get_summary ds,
                     col_table_count = map (\<lambda>d. length (get_tables d)) ds,
                     col_metrics = metric_columns ds\<rparr>
         in (df, self\<lparr>processed_data := df\<rparr>)))"

text \<open>The three exports return what they write under the output path.\<close>

datatype export = CsvFile dataframe | ExcelFile dataframe | JsonFile "extracted list"

definition save_to_csv :: "processor \<Rightarrow> error + export" where
  "save_to_csv self =
     (if frame_empty (processed_data self) then Inl ValueError
      else Inr (CsvFile (processed_data self)))"

definition save_to_excel :: "processor \<Rightarrow> error + export" where
  "save_to_excel self =
     (if frame_empty (processed_data self) then Inl ValueError
      else Inr (ExcelFile (processed_data self)))"

definition export_as_json :: "processor \<Rightarrow> error + export" where
  "export_as_json self = Inr (JsonFile (data_list self))"

section \<open>DataAnalyzer\<close>

text \<open>
  Floating-point numbers. A finite float is modelled by the real number it stands for,
  next to the three special values. The arithmetic itself belongs to the platform and to
  the data-frame library, and is a parameter of the model: \<open>rnd\<close> rounds the exact
  result of one elementwise operation to a float, and \<open>lib_sum\<close>, \<open>lib_mean\<close> and
  \<open>lib_std\<close> are the library's reductions \<^verbatim>\<open>sum()\<close>, \<^verbatim>\<open>mean()\<close> and \<^verbatim>\<open>std()\<close> over the
  values of a column that are present. Nothing is assumed about them here; statements
  that need a property of the arithmetic say so. The sign of a zero is not modelled.
\<close>

datatype fnum = Fin real | NaN | PosInf | NegInf

record arith =
  rnd :: "real \<Rightarrow> real"
  lib_sum :: "real list \<Rightarrow> real"
  lib_mean :: "real list \<Rightarrow> real"
  lib_std :: "real list \<Rightarrow> real"

text \<open>The values of a column that are present (\<^verbatim>\<open>NaN\<close> and \<^verbatim>\<open>None\<close> entries are skipped
  by \<^verbatim>\<open>sum\<close>, \<^verbatim>\<open>mean\<close>, \<^verbatim>\<open>std\<close>, \<^verbatim>\<open>max\<close>, \<^verbatim>\<open>min\<close>, \<^verbatim>\<open>value_counts\<close> and \<^verbatim>\<open>groupby\<close>).\<close>

definition present :: "'a option list \<Rightarrow> 'a list" where
  "present col = concat (map (\<lambda>x. case x of None \<Rightarrow> [] | Some v \<Rightarrow> [v]) col)"

text \<open>\<^verbatim>\<open>Series.sum()\<close>, \<^verbatim>\<open>Series.mean()\<close> and \<^verbatim>\<open>Series.std()\<close>: the mean of no value is
  \<^verbatim>\<open>NaN\<close> (here \<open>None\<close>), and so is the deviation of fewer than two values (\<^verbatim>\<open>std\<close> has
  \<^verbatim>\<open>ddof=1\<close> by default).\<close>

definition col_sum :: "arith \<Rightarrow> real option list \<Rightarrow> real" where
  "col_sum A col = lib_sum A (present col)"

definition col_mean :: "arith \<Rightarrow> real option list \<Rightarrow> real option" where
  "col_mean A col = (if present col = [] then None else Some (lib_mean A (present col)))"

definition col_std :: "arith \<Rightarrow> real option list \<Rightarrow> real option" where
  "col_std A col = (if length (present col) < 2 then None else Some (lib_std A (present col)))"

text \<open>\<^verbatim>\<open>Series.max()\<close> and \<^verbatim>\<open>Series.min()\<close> select a value and do not round.\<close>

definition col_max :: "real option list \<Rightarrow> real option" where
  "col_max col = (case present col of [] \<Rightarrow> None | x # xs \<Rightarrow> Some (fold max xs x))"

definition col_min :: "real option list \<Rightarrow> real option" where
  "col_min col = (case present col of [] \<Rightarrow> None | x # xs \<Rightarrow> Some (fold min xs x))"

definition fnum_of :: "real option \<Rightarrow> fnum" where
  "fnum_of x = (case x of None \<Rightarrow> NaN | Some v \<Rightarrow> Fin v)"

text \<open>
  The vendor block. \<^verbatim>\<open>value_counts()\<close> counts each vendor that occurs and lists the
  counts in descending order; \<^verbatim>\<open>groupby('vendor')['total_amount'].sum()\<close> has one entry
  per vendor that occurs, in ascending order of the names, each the sum of the amounts
  that are present in its rows; \<^verbatim>\<open>nlargest(3)\<close> keeps the three largest sums, the earlier
  entry first among equal ones. (The order that \<^verbatim>\<open>value_counts\<close> gives to equal counts
  is the library's; the model keeps the order of first appearance.)
\<close>

definition value_counts :: "string option list \<Rightarrow> (string \<times> nat) list" where
  "value_counts col =
     sort_key (\<lambda>e. - int (snd e))
       (map (\<lambda>v. (v, length (filter (\<lambda>x. x = v) (present col))))
            (rev (remdups (rev (present col)))))"

definition vendor_sums :: "arith \<Rightarrow> string option list \<Rightarrow> real option list \<Rightarrow> (string \<times> real) list" where
  "vendor_sums A vendors amounts =
     map (\<lambda>v. (v, col_sum A (map snd (filter (\<lambda>row. fst row = Some v) (zip vendors amounts)))))
         (sort (remdups (present vendors)))"

definition nlargest :: "nat \<Rightarrow> (string \<times> real) list \<Rightarrow> (string \<times> real) list" where
  "nlargest n entries = take n (sort_key (\<lambda>e. - snd e) entries)"

text \<open>A month period \<^verbatim>\<open>to_period('M')\<close>: year and month.\<close>

type_synonym period = "nat \<times> nat"

definition to_period :: "timestamp \<Rightarrow> period" where
  "to_period t = (year t, month t)"

definition period_key :: "period \<Rightarrow> nat" where
  "period_key p = 12 * fst p + snd p"

text \<open>\<^verbatim>\<open>groupby('month')['total_amount'].sum()\<close>: one entry per month that occurs, in
  ascending order of the months; rows without a date belong to no group; a group sums
  the amounts that are present.\<close>

definition group_months :: "period option list \<Rightarrow> period list" where
  "group_months months = sort_key period_key (remdups (present months))"

definition monthly_sums ::
  "arith \<Rightarrow> period option list \<Rightarrow> real option list \<Rightarrow> (period \<times> real) list" where
  "monthly_sums A months amounts =
     map (\<lambda>p. (p, col_sum A (map snd (filter (\<lambda>row. fst row = Some p) (zip months amounts)))))
         (group_months months)"

text \<open>\<^verbatim>\<open>pct_change() * 100\<close>: each entry divided by the one before it, minus one, times
  hundred, every step rounded; the first entry has no predecessor and is \<^verbatim>\<open>NaN\<close>.
  Division by a zero total gives an infinity, or \<^verbatim>\<open>NaN\<close> for \<open>0 / 0\<close>.\<close>

definition pct :: "arith \<Rightarrow> real \<Rightarrow> real \<Rightarrow> fnum" where
  "pct A prev cur =
     (if prev = 0 then (if cur = 0 then NaN else if 0 < cur then PosInf else NegInf)
      else Fin (rnd A (rnd A (rnd A (cur / prev) - 1) * 100)))"

fun pct_change :: "arith \<Rightarrow> (period \<times> real) list \<Rightarrow> (period \<times> fnum) list" where
  "pct_change A [] = []"
| "pct_change A [a] = []"
| "pct_change A (a # b # rest) = (fst b, pct A (snd a) (snd b)) # pct_change A (b # rest)"

definition pct_change_100 :: "arith \<Rightarrow> (period \<times> real) list \<Rightarrow> (period \<times> fnum) list" where
  "pct_change_100 A totals =
     (case totals of [] \<Rightarrow> [] | a # _ \<Rightarrow> (fst a, NaN) # pct_change A totals)"

text \<open>\<^verbatim>\<open>dropna()\<close>\<close>

definition dropna :: "(period \<times> fnum) list \<Rightarrow> (period \<times> fnum) list" where
  "dropna xs = filter (\<lambda>e. snd e \<noteq> NaN) xs"

text \<open>
  The insights dictionary of \<^verbatim>\<open>analyze_invoices\<close>: a key that is not set is \<open>None\<close>.
  Month keys are kept as periods; the source prints them with \<^verbatim>\<open>str\<close>, which gives
  distinct strings for distinct periods.
\<close>

record insights =
  error_key :: bool
  total_spend :: "fnum option"
  average_invoice_amount :: "fnum option"
  max_invoice_amount :: "fnum option"
  min_invoice_amount :: "fnum option"
  vendor_count :: "nat option"
  top_vendors :: "(string \<times> nat) list option"
  top_vendors_by_spend :: "(string \<times> real) list option"
  monthly_totals :: "(period \<times> real) list option"
  monthly_change :: "(period \<times> fnum) list option"

definition no_insights :: insights where
  "no_insights = \<lparr>error_key = False, total_spend = None, average_invoice_amount = None,
                  max_invoice_amount = None, min_invoice_amount = None,
                  vendor_count = None, top_vendors = None, top_vendors_by_spend = None,
                  monthly_totals = None, monthly_change = None\<rparr>"

text \<open>The basic statistics of \<^verbatim>\<open>analyze_invoices\<close>.\<close>

definition basic_statistics :: "arith \<Rightarrow> real option list \<Rightarrow> insights \<Rightarrow> insights" where
  "basic_statistics A amounts ins =
     ins\<lparr>total_spend := Some (Fin (col_sum A amounts)),
         average_invoice_amount := Some (fnum_of (col_mean A amounts)),
         max_invoice_amount := Some (fnum_of (col_max amounts)),
         min_invoice_amount := Some (fnum_of (col_min amounts))\<rparr>"

text \<open>The vendor analysis of \<^verbatim>\<open>analyze_invoices\<close>. When no amount at all is present, the
  amount column is not a numeric column, and \<^verbatim>\<open>nlargest\<close> raises \<^verbatim>\<open>TypeError\<close> on the
  sums.\<close>

definition vendor_analysis ::
  "arith \<Rightarrow> string option list \<Rightarrow> real option list \<Rightarrow> insights \<Rightarrow> error + insights" where
  "vendor_analysis A vendors amounts ins =
     (let vendor_counts = value_counts vendors;
          ins1 = ins\<lparr>vendor_count := Some (length vendor_counts),
                     top_vendors := Some (take 3 vendor_counts)\<rparr>
      in if isna_all amounts then Inl TypeError
         else Inr (ins1\<lparr>top_vendors_by_spend :=
                           Some (nlargest 3 (vendor_sums A vendors amounts))\<rparr>))"

text \<open>The time-series block of \<^verbatim>\<open>analyze_invoices\<close>, entered when the date column holds
  timestamps.\<close>

definition time_series ::
  "arith \<Rightarrow> timestamp option list \<Rightarrow> real option list \<Rightarrow> insights \<Rightarrow> insights" where
  "time_series A dates amounts ins =
     (let months = map (map_option to_period) dates;
          totals = monthly_sums A months amounts;
          ins1 = ins\<lparr>monthly_totals := Some totals\<rparr>
      in if length totals > 1
         then ins1\<lparr>monthly_change := Some (dropna (pct_change_100 A totals))\<rparr>
         else ins1)"

text \<open>\<^verbatim>\<open>analyze_invoices\<close>. An invoice frame has the columns \<^verbatim>\<open>total_amount\<close> and
  \<^verbatim>\<open>vendor\<close>; a report frame has neither, so that with parsed dates the monthly grouping
  asks for a column that does not exist.\<close>

definition analyze_invoices :: "arith \<Rightarrow> dataframe \<Rightarrow> error + insights" where
  "analyze_invoices A df =
     (if frame_empty df then Inr (no_insights\<lparr>error_key := True\<rparr>)
      else case df of
        NoFrame \<Rightarrow> Inr (no_insights\<lparr>error_key := True\<rparr>)
      | InvoiceFrame f \<Rightarrow>
          (let amounts = col_total_amount f in
           case vendor_analysis A (col_vendor f) amounts (basic_statistics A amounts no_insights) of
             Inl e \<Rightarrow> Inl e
           | Inr ins \<Rightarrow>
               (case col_date f of
                  Raw xs \<Rightarrow> Inr ins
                | Dates ts \<Rightarrow> Inr (time_series A ts amounts ins)))
      | ReportFrame f \<Rightarrow>
          (case col_report_date f of
             Raw xs \<Rightarrow> Inr no_insights
           | Dates ts \<Rightarrow> Inl KeyError))"

text \<open>Row labels: the position, or the invoice number once it is the index.\<close>

datatype row_label = Pos nat | Label "string option"

definition row_labels :: "dataframe \<Rightarrow> row_label list" where
  "row_labels df =
     (case df of
        NoFrame \<Rightarrow> []
      | InvoiceFrame f \<Rightarrow>
          if index_by_number f then map Label (col_invoice_number f)
          else map Pos [0..<length (col_invoice_number f)]
      | ReportFrame f \<Rightarrow> map Pos [0..<length (col_table_count f)])"

text \<open>\<^verbatim>\<open>select_dtypes(include=['number'])\<close>, in column order: an amount column that holds at
  least one number is a float column, the two count columns are integer columns, and a
  metric column is a float column when none of its values is a string.\<close>

definition is_number :: "metric_value option \<Rightarrow> bool" where
  "is_number v = (case v of Some (Text s) \<Rightarrow> False | _ \<Rightarrow> True)"

definition number_of :: "metric_value option \<Rightarrow> real option" where
  "number_of v = (case v of Some (Number x) \<Rightarrow> Some x | _ \<Rightarrow> None)"

definition numeric_columns :: "dataframe \<Rightarrow> (string \<times> real option list) list" where
  "numeric_columns df =
     (case df of
        NoFrame \<Rightarrow> []
      | InvoiceFrame f \<Rightarrow>
          (if isna_all (col_total_amount f) then [] else [(''total_amount'', col_total_amount f)]) @
          [(''line_item_count'', map (\<lambda>n. Some (real n)) (col_line_item_count f))]
      | ReportFrame f \<Rightarrow>
          (''table_count'', map (\<lambda>n. Some (real n)) (col_table_count f)) #
          map (\<lambda>(name, vs). (name, map number_of vs))
              (filter (\<lambda>(name, vs). list_all is_number vs) (col_metrics f)))"

text \<open>An anomaly entry. \<^verbatim>\<open>self.data.loc[idx, column]\<close> and \<^verbatim>\<open>z_scores[idx]\<close> select by
  label: they give the values of all rows that carry the label (one value when labels
  are unique).\<close>

record anomaly =
  a_index :: row_label
  a_column :: string
  a_value :: "real option list"
  a_z_score :: "real option list"
  a_mean :: real
  a_std :: real

definition loc :: "row_label list \<Rightarrow> 'a list \<Rightarrow> row_label \<Rightarrow> 'a list" where
  "loc labels vals idx = map snd (filter (\<lambda>row. fst row = idx) (zip labels vals))"

text \<open>The body of the column loop of \<^verbatim>\<open>get_anomalies\<close>: mean and deviation from the
  library, the z-scores by an elementwise subtraction and an elementwise division, the
  strict comparison with the threshold. A comparison with \<^verbatim>\<open>NaN\<close> is false, so a column
  whose mean or deviation is \<^verbatim>\<open>NaN\<close> yields nothing.\<close>

definition z_score :: "arith \<Rightarrow> real \<Rightarrow> real \<Rightarrow> real \<Rightarrow> real" where
  "z_score A mean std x = rnd A (rnd A (x - mean) / std)"

definition column_anomalies ::
  "arith \<Rightarrow> row_label list \<Rightarrow> string \<Rightarrow> real option list \<Rightarrow> real \<Rightarrow> anomaly list" where
  "column_anomalies A labels column col threshold =
     (case (col_mean A col, col_std A col) of
        (Some mean, Some std) \<Rightarrow>
          if std = 0 then []
          else
            (let z_scores = map (map_option (z_score A mean std)) col;
                 anomaly_indices =
                   map fst (filter (\<lambda>row. case snd row of None \<Rightarrow> False
                                          | Some z \<Rightarrow> \<bar>z\<bar> > threshold)
                                   (zip labels z_scores))
             in map (\<lambda>idx. \<lparr>a_index = idx, a_column = column,
                            a_value = loc labels col idx,
                            a_z_score = loc labels z_scores idx,
                            a_mean = mean, a_std = std\<rparr>) anomaly_indices)
      | _ \<Rightarrow> [])"

definition get_anomalies :: "arith \<Rightarrow> dataframe \<Rightarrow> real \<Rightarrow> anomaly list" where
  "get_anomalies A df threshold =
     (if frame_empty df then []
      else concat (map (\<lambda>(column, col). column_anomalies A (row_labels df) column col threshold)
                       (numeric_columns df)))"

text \<open>
  The arithmetic without rounding error: sums and means are exact, and the deviation
  is the exact sample standard deviation, with divisor \<open>n - 1\<close>. It is the reference
  that a floating-point arithmetic approximates.
\<close>

definition exact_mean :: "real list \<Rightarrow> real" where
  "exact_mean xs = sum_list xs / real (length xs)"

definition exact_std :: "real list \<Rightarrow> real" where
  "exact_std xs = sqrt (sum_list (map (\<lambda>x. (x - exact_mean xs)\<^sup>2) xs) / real (length xs - 1))"

definition exact_arith :: arith where
  "exact_arith = \<lparr>rnd = (\<lambda>x. x), lib_sum = sum_list, lib_mean = exact_mean, lib_std = exact_std\<rparr>"

text \<open>
  What the statements below ask of the rounding of a floating-point arithmetic: it is
  monotone, and it leaves alone the numbers that are floats already, of which the
  integers and the multiples of a quarter below a million are some.
\<close>

definition rounding :: "(real \<Rightarrow> real) \<Rightarrow> bool" where
  "rounding r =
     (mono r \<and> (\<forall>n::int. \<bar>n\<bar> \<le> 4000000 \<longrightarrow> r (of_int n / 4) = of_int n / 4))"

section \<open>Observations used in the statements\<close>

text \<open>Whether the rows of a frame are labelled by the invoice number.\<close>

definition indexed_by_number :: "dataframe \<Rightarrow> bool" where
  "indexed_by_number df = (case df of InvoiceFrame f \<Rightarrow> index_by_number f | _ \<Rightarrow> False)"


text \<open>The timestamps of a date column: none while the column holds raw strings.\<close>

definition parsed_dates :: "date_column \<Rightarrow> timestamp list" where
  "parsed_dates col = (case col of Raw xs \<Rightarrow> [] | Dates ts \<Rightarrow> present ts)"

text \<open>Two sample invoice frames: both invoices in March 2024, and one in March, one in
  April.\<close>

definition march_frame :: invoice_frame where
  "march_frame =
     \<lparr>index_by_number = False, col_invoice_number = [None, None],
      col_date = Dates [Some \<lparr>year = 2024, month = 3, day = 1\<rparr>,
                        Some \<lparr>year = 2024, month = 3, day = 15\<rparr>],
      col_vendor = [None, None], col_total_amount = [Some 100, Some 50],
      col_line_item_count = [0, 0]\<rparr>"

definition march_april_frame :: invoice_frame where
  "march_april_frame =
     march_frame\<lparr>col_date := Dates [Some \<lparr>year = 2024, month = 3, day = 1\<rparr>,
                                     Some \<lparr>year = 2024, month = 4, day = 15\<rparr>]\<rparr>"




text \<open>A sample invoice frame whose amounts are 10, 10, 10, 10 and 1000; no invoice has
  line items.\<close>

definition outlier_frame :: dataframe where
  "outlier_frame = InvoiceFrame
     \<lparr>index_by_number = False, col_invoice_number = [None, None, None, None, None],
      col_date = Raw [None, None, None, None, None],
      col_vendor = [None, None, None, None, None],
      col_total_amount = [Some 10, Some 10, Some 10, Some 10, Some 1000],
      col_line_item_count = [0, 0, 0, 0, 0]\<rparr>"

text \<open>The counterparty as the specification describes it: the first line of the text
  that is not empty after trimming.\<close>

definition spec_first_nonempty_line :: "string \<Rightarrow> string option" where
  "spec_first_nonempty_line text =
     (case filter (\<lambda>l. l \<noteq> []) (map strip (split newline text)) of
        [] \<Rightarrow> None
      | l # _ \<Rightarrow> Some l)"

text \<open>No field pattern of the invoice extractor, respectively of the report extractor,
  matches anywhere in the text; a table without a price-like column label.\<close>

definition no_invoice_pattern :: "string \<Rightarrow> bool" where
  "no_invoice_pattern text =
     (re_search IGNORECASE invoice_rx text = None \<and>
      re_search IGNORECASE date_rx text = None \<and>
      re_search IGNORECASE amount_rx text = None)"

definition no_report_pattern :: "string \<Rightarrow> bool" where
  "no_report_pattern text =
     (re_search IGNORECASE date_rx text = None \<and>
      re_search DOTALL_IGNORECASE summary_rx text = None \<and>
      re_search no_flags metric_rx text = None)"

definition no_price_table :: "table \<Rightarrow> bool" where
  "no_price_table t = (price_columns t = Inr [])"

text \<open>Sample sources: a page whose first line is blank, a page without any field, a
  page with a padded first line, a file without text, and a file that is no PDF.\<close>

definition blank_first_text :: string where
  "blank_first_text = '' '' @ [newline] @ ''ACME Corp''"

definition blank_first_fs :: filesystem where
  "blank_first_fs = [''a.pdf'' \<mapsto> Pdf [\<lparr>page_text = blank_first_text, page_tables = []\<rparr>]]"

definition plain_text :: string where
  "plain_text = ''hello''"

definition plain_fs :: filesystem where
  "plain_fs = [''a.pdf'' \<mapsto> Pdf [\<lparr>page_text = plain_text, page_tables = []\<rparr>]]"

definition padded_text :: string where
  "padded_text = '' ACME '' @ [newline] @ ''x''"

definition padded_fs :: filesystem where
  "padded_fs = [''a.pdf'' \<mapsto> Pdf [\<lparr>page_text = padded_text, page_tables = []\<rparr>]]"

definition no_text_fs :: filesystem where
  "no_text_fs = [''a.pdf'' \<mapsto> Pdf [\<lparr>page_text = [], page_tables = []\<rparr>]]"

definition invalid_fs :: filesystem where
  "invalid_fs = [''a.pdf'' \<mapsto> Invalid]"

definition a_pdf :: extractor where
  "a_pdf = \<lparr>pdf_path = ''a.pdf''\<rparr>"

text \<open>A page on which a bare dollar amount stands before the total.\<close>

definition fee_first_text :: string where
  "fee_first_text = ''Fee $5.00 Total: $100.00''"

definition fee_first_fs :: filesystem where
  "fee_first_fs = [''a.pdf'' \<mapsto> Pdf [\<lparr>page_text = fee_first_text, page_tables = []\<rparr>]]"

text \<open>The match that \<^verbatim>\<open>re\<close> reports for a pattern at one position: the head of the
  matcher's list.\<close>

definition best :: "flags \<Rightarrow> rx \<Rightarrow> mstate \<Rightarrow> mstate option" where
  "best fl r st = (case rx_match fl r st of [] \<Rightarrow> None | st' # _ \<Rightarrow> Some st')"

text \<open>A report page with a four-digit number without separators.\<close>

definition revenue_text :: string where
  "revenue_text = ''Revenue: 1234''"

definition revenue_fs :: filesystem where
  "revenue_fs = [''a.pdf'' \<mapsto> Pdf [\<lparr>page_text = revenue_text, page_tables = []\<rparr>]]"

text \<open>The deviation as the specification names it, over all points (divisor \<open>n\<close>), and
  the exact arithmetic with it.\<close>

definition spec_population_std :: "real list \<Rightarrow> real" where
  "spec_population_std xs =
     sqrt (sum_list (map (\<lambda>x. (x - exact_mean xs)\<^sup>2) xs) / real (length xs))"

definition spec_population_arith :: arith where
  "spec_population_arith = exact_arith\<lparr>lib_std := spec_population_std\<rparr>"

section \<open>Properties of the matcher\<close>

text \<open>Where no match is found by a search, the iteration finds none.\<close>

lemma finditer_none:
  "re_search_from fl r pos s = None \<Longrightarrow> finditer_from fl r pos s = []"
proof (induction s arbitrary: pos)
  case Nil
  then show ?case
    by (subst finditer_from.simps) (simp split: list.splits)
next
  case (Cons c t)
  from Cons.prems have m: "rx_match fl r (c # t, Map.empty) = []"
    and rest: "re_search_from fl r (Suc pos) t = None"
    by (simp_all split: list.splits)
  from Cons.IH [OF rest] m show ?case
    by (subst finditer_from.simps) simp
qed

text \<open>A search never reports a match before the position it started from, and a
  search for an alternation reports the leftmost match of either side, the left side
  winning at equal positions.\<close>

lemma search_start: "re_search_from fl r pos s = Some m \<Longrightarrow> pos \<le> start m"
proof (induction s arbitrary: pos)
  case Nil
  then show ?case by (auto split: list.splits)
next
  case (Cons c t)
  show ?case
  proof (cases "rx_match fl r (c # t, Map.empty)")
    case Nil
    with Cons.prems have "re_search_from fl r (Suc pos) t = Some m" by simp
    from Cons.IH [OF this] show ?thesis by simp
  next
    case (Cons st sts)
    with Cons.prems show ?thesis by auto
  qed
qed

lemma search_Alt:
  "re_search_from fl (Alt a b) pos s =
     (case (re_search_from fl a pos s, re_search_from fl b pos s) of
        (None, None) \<Rightarrow> None
      | (Some ma, None) \<Rightarrow> Some ma
      | (None, Some mb) \<Rightarrow> Some mb
      | (Some ma, Some mb) \<Rightarrow> if start ma \<le> start mb then Some ma else Some mb)"
proof (induction s arbitrary: pos)
  case Nil
  show ?case by (simp split: list.splits)
next
  case (Cons c t)
  show ?case
  proof (cases "rx_match fl a (c # t, Map.empty)")
    case na: Nil
    show ?thesis
    proof (cases "rx_match fl b (c # t, Map.empty)")
      case Nil
      with na Cons.IH [of "Suc pos"] show ?thesis by simp
    next
      case (Cons st sts)
      show ?thesis
      proof (cases "re_search_from fl a (Suc pos) t")
        case None
        with na Cons show ?thesis by simp
      next
        case (Some ma)
        from search_start [OF this] have "Suc pos \<le> start ma" .
        with na Cons Some show ?thesis by simp
      qed
    qed
  next
    case ca: (Cons st sts)
    show ?thesis
    proof (cases "re_search_from fl b pos (c # t)")
      case None
      with ca show ?thesis by simp
    next
      case (Some mb)
      from search_start [OF this] have "pos \<le> start mb" .
      with ca Some show ?thesis by simp
    qed
  qed
qed


text \<open>Character classes without flags, and what a digit is not.\<close>

lemma in_class_no_flags: "in_class no_flags items c = list_ex (\<lambda>i. in_item i c) items"
  by (simp add: in_class_def no_flags_def)

lemma digit_not_label: "is_digit c \<Longrightarrow> \<not> in_class no_flags label_class c"
  by (auto simp add: in_class_no_flags label_class_def is_digit_def is_space_def code_def)

lemma digit_not_punct:
  "is_digit c \<Longrightarrow> c \<noteq> CHR '',''" "is_digit c \<Longrightarrow> c \<noteq> CHR ''.''"
  "is_digit c \<Longrightarrow> c \<noteq> CHR ''$''" "is_digit c \<Longrightarrow> \<not> is_space c"
  by (auto simp add: is_digit_def is_space_def code_def)

text \<open>A greedy repetition of a character class first consumes the whole run of
  characters of the class.\<close>

lemma star_class_prefix:
  "list_all (in_class fl items) xs \<Longrightarrow>
   \<exists>more. rx_match fl (Star (Cls items)) (xs @ rest, g) =
           rx_match fl (Star (Cls items)) (rest, g) @ more"
proof (induction xs)
  case Nil
  show ?case by simp
next
  case (Cons x xs)
  then obtain more where
    "rx_match fl (Star (Cls items)) (xs @ rest, g) = rx_match fl (Star (Cls items)) (rest, g) @ more"
    by auto
  with Cons.prems show ?case
    by (subst rx_match.simps(6)) simp
qed

lemma star_class_stop:
  "(case rest of [] \<Rightarrow> True | c # _ \<Rightarrow> \<not> in_class fl items c) \<Longrightarrow>
   rx_match fl (Star (Cls items)) (rest, g) = [(rest, g)]"
  by (subst rx_match.simps(6)) (cases rest; simp)

lemma star_class_greedy:
  assumes "list_all (in_class fl items) xs"
    "case rest of [] \<Rightarrow> True | c # _ \<Rightarrow> \<not> in_class fl items c"
  shows "\<exists>more. rx_match fl (Star (Cls items)) (xs @ rest, g) = (rest, g) # more"
  using star_class_prefix [OF assms(1), of rest g] star_class_stop [OF assms(2), of g]
  by auto

lemma plus_class_greedy:
  assumes "xs \<noteq> []" "list_all (in_class fl items) xs"
    "case rest of [] \<Rightarrow> True | c # _ \<Rightarrow> \<not> in_class fl items c"
  shows "\<exists>more. rx_match fl (Plus (Cls items)) (xs @ rest, g) = (rest, g) # more"
proof -
  from assms(1) obtain x xs' where xs: "xs = x # xs'" by (cases xs) auto
  with assms(2) have x: "in_class fl items x" and xs': "list_all (in_class fl items) xs'" by auto
  from star_class_greedy [OF xs' assms(3), of g] obtain more where
    "rx_match fl (Star (Cls items)) (xs' @ rest, g) = (rest, g) # more" by blast
  with x xs show ?thesis by (simp add: Plus_def)
qed


text \<open>The reported match, composed along the pattern.\<close>

lemma best_iff: "best fl r st = Some st' \<longleftrightarrow> (\<exists>more. rx_match fl r st = st' # more)"
  by (auto simp add: best_def split: list.splits)

lemma best_Seq:
  "best fl a st = Some st1 \<Longrightarrow> best fl b st1 = Some st2 \<Longrightarrow> best fl (Seq a b) st = Some st2"
  by (auto simp add: best_iff)

lemma best_Grp:
  "best fl r st = Some st1 \<Longrightarrow>
   best fl (Grp n r) st =
     Some (fst st1, (snd st1)(n \<mapsto> take (length (fst st) - length (fst st1)) (fst st)))"
  by (auto simp add: best_iff)

lemma best_Cls: "in_class fl items c \<Longrightarrow> best fl (Cls items) (c # cs, g) = Some (cs, g)"
  by (simp add: best_def)

lemma best_Opt_take: "best fl r st = Some st1 \<Longrightarrow> best fl (Opt r) st = Some st1"
  by (auto simp add: best_iff Opt_def)

lemma best_Opt_skip: "rx_match fl r st = [] \<Longrightarrow> best fl (Opt r) st = Some st"
  by (simp add: best_def Opt_def)

lemma best_Star_class:
  "list_all (in_class fl items) xs \<Longrightarrow>
   (case rest of [] \<Rightarrow> True | c # _ \<Rightarrow> \<not> in_class fl items c) \<Longrightarrow>
   best fl (Star (Cls items)) (xs @ rest, g) = Some (rest, g)"
  using star_class_greedy [of fl items xs rest g] by (simp add: best_iff)

lemma best_Plus_class:
  "xs \<noteq> [] \<Longrightarrow> list_all (in_class fl items) xs \<Longrightarrow>
   (case rest of [] \<Rightarrow> True | c # _ \<Rightarrow> \<not> in_class fl items c) \<Longrightarrow>
   best fl (Plus (Cls items)) (xs @ rest, g) = Some (rest, g)"
  using plus_class_greedy [of xs fl items rest g] by (simp add: best_iff)

lemma finditer_step:
  assumes "best fl r (pre @ suf, Map.empty) = Some (suf, g)" "pre \<noteq> []"
  shows "finditer_from fl r pos (pre @ suf) =
           \<lparr>start = pos, matched = pre, group = g\<rparr> # finditer_from fl r (pos + length pre) suf"
proof -
  from assms(1) obtain more where "rx_match fl r (pre @ suf, Map.empty) = (suf, g) # more"
    by (auto simp add: best_iff)
  with assms(2) show ?thesis
    by (subst finditer_from.simps) (simp add: Let_def)
qed

section \<open>Construction and path validation\<close>

text \<open>
  C9. Constructing an extractor raises \<^verbatim>\<open>FileNotFoundError\<close> when the path does not
  exist, otherwise \<^verbatim>\<open>ValueError\<close> when the lower-cased path does not end in \<^verbatim>\<open>.pdf\<close>;
  the file stored under the path is never inspected, so on every existing path whose
  lower-cased name ends in \<^verbatim>\<open>.pdf\<close> construction succeeds, whatever the file holds.
\<close>

theorem new_extractor_validation:
  "(fs path = None \<longrightarrow> new_extractor fs path = Inl FileNotFoundError) \<and>
   (fs path \<noteq> None \<and> \<not> endswith (lower path) ''.pdf'' \<longrightarrow> new_extractor fs path = Inl ValueError) \<and>
   (fs path \<noteq> None \<and> endswith (lower path) ''.pdf'' \<longrightarrow>
      new_extractor fs path = Inr \<lparr>pdf_path = path\<rparr> \<and>
      new_extractor (fs(path \<mapsto> content)) path = new_extractor fs path)"
  by (simp add: new_extractor_def validate_file_def path_exists_def)

theorem new_extractor_validation_witness:
  "new_extractor Map.empty ''a.pdf'' = Inl FileNotFoundError \<and>
   new_extractor [''notes.txt'' \<mapsto> Pdf []] ''notes.txt'' = Inl ValueError \<and>
   new_extractor [''Scan.PDF'' \<mapsto> Invalid] ''Scan.PDF'' = Inr \<lparr>pdf_path = ''Scan.PDF''\<rparr> \<and>
   new_extractor ([''Scan.PDF'' \<mapsto> Invalid](''Scan.PDF'' \<mapsto> Pdf [])) ''Scan.PDF''
     = new_extractor [''Scan.PDF'' \<mapsto> Invalid] ''Scan.PDF''"
proof -
  have no_suffix: "\<not> endswith (lower ''notes.txt'') ''.pdf''" by code_simp
  have has_suffix: "endswith (lower ''Scan.PDF'') ''.pdf''" by code_simp
  show ?thesis
    using new_extractor_validation [of Map.empty "''a.pdf''"]
          new_extractor_validation [of "[''notes.txt'' \<mapsto> Pdf []]" "''notes.txt''"]
          new_extractor_validation [of "[''Scan.PDF'' \<mapsto> Invalid]" "''Scan.PDF''" "Pdf []"]
          no_suffix has_suffix
    by simp
qed

section \<open>Counterparty of an invoice\<close>

lemma split_head: "\<exists>ls. split sep s = takeWhile (\<lambda>c. c \<noteq> sep) s # ls"
  by (induction s) auto

lemma first_line_eq: "first_line text = Some (strip (takeWhile (\<lambda>c. c \<noteq> newline) text))"
proof -
  obtain ls where "split newline text = takeWhile (\<lambda>c. c \<noteq> newline) text # ls"
    using split_head by blast
  then show ?thesis by (simp add: first_line_def)
qed

lemma spec_first_line_eq:
  "strip (takeWhile (\<lambda>c. c \<noteq> newline) text) \<noteq> [] \<Longrightarrow>
   spec_first_nonempty_line text = Some (strip (takeWhile (\<lambda>c. c \<noteq> newline) text))"
proof -
  assume ne: "strip (takeWhile (\<lambda>c. c \<noteq> newline) text) \<noteq> []"
  obtain ls where "split newline text = takeWhile (\<lambda>c. c \<noteq> newline) text # ls"
    using split_head by blast
  with ne show ?thesis by (simp add: spec_first_nonempty_line_def)
qed

lemma extract_invoice_vendor:
  assumes "extract_text fs self = Inr (text # rest)" "extract_invoice_data fs self = Inr d"
  shows "vendor d = first_line text"
  using assms
  by (auto simp add: extract_invoice_data_def Let_def split: sum.splits)

text \<open>
  C6 (amended). Whenever the first page yields text and the invoice extraction returns a
  record, the vendor is the first line of the page-one text (the text up to the first
  line break), trimmed, even when that line is blank: then the vendor is the empty
  string. It is the first non-empty line whenever the first line is not blank.
\<close>

theorem vendor_is_first_line:
  "extract_text fs self = Inr (text # rest) \<Longrightarrow> extract_invoice_data fs self = Inr d \<Longrightarrow>
   vendor d = Some (strip (takeWhile (\<lambda>c. c \<noteq> newline) text)) \<and>
   (strip (takeWhile (\<lambda>c. c \<noteq> newline) text) \<noteq> [] \<longrightarrow>
      vendor d = spec_first_nonempty_line text)"
  by (simp add: extract_invoice_vendor first_line_eq spec_first_line_eq)

theorem vendor_is_first_line_witness:
  "extract_text padded_fs a_pdf = Inr [padded_text] \<and>
   extract_invoice_data padded_fs a_pdf =
     Inr \<lparr>invoice_number = None, invoice_date = None, total_amount = None,
          vendor = Some ''ACME'', line_items = []\<rparr> \<and>
   Some ''ACME'' = Some (strip (takeWhile (\<lambda>c. c \<noteq> newline) padded_text)) \<and>
   Some ''ACME'' = spec_first_nonempty_line padded_text"
proof -
  have pages: "extract_text padded_fs a_pdf = Inr [padded_text]"
    by code_simp
  have data: "extract_invoice_data padded_fs a_pdf =
     Inr \<lparr>invoice_number = None, invoice_date = None, total_amount = None,
          vendor = Some ''ACME'', line_items = []\<rparr>"
    by code_simp
  have line: "strip (takeWhile (\<lambda>c. c \<noteq> newline) padded_text) = ''ACME''"
    by code_simp
  show ?thesis
    using vendor_is_first_line [OF pages data] pages data line by simp
qed

text \<open>A page whose first line is blank: the vendor is the empty string, not the first
  non-empty line.\<close>

theorem vendor_first_nonempty_counterexample:
  "extract_text blank_first_fs a_pdf = Inr [blank_first_text] \<and>
   extract_invoice_data blank_first_fs a_pdf =
     Inr \<lparr>invoice_number = None, invoice_date = None, total_amount = None,
          vendor = Some [], line_items = []\<rparr> \<and>
   spec_first_nonempty_line blank_first_text = Some ''ACME Corp''"
  by code_simp

section \<open>Extraction without matching patterns\<close>

lemma collect_no_price: "list_all no_price_table ts \<Longrightarrow> collect_line_items ts = Inr []"
  by (induction ts) (simp_all add: no_price_table_def)

lemma extract_tables_loaded:
  "open_pdf fs (pdf_path self) = Inr ps \<Longrightarrow> \<exists>ts. extract_tables fs self = Inr ts"
  by (simp add: extract_tables_def)

lemma extract_text_pages:
  "open_pdf fs (pdf_path self) = Inr ps \<Longrightarrow>
   extract_text fs self = Inr (filter (\<lambda>t. t \<noteq> []) (map page_text ps))"
  by (simp add: extract_text_def)

lemma key_metrics_none:
  "re_search no_flags metric_rx text = None \<Longrightarrow> extract_key_metrics text = []"
  by (simp add: extract_key_metrics_def finditer_def re_search_def finditer_none)

lemma extract_amount_none:
  "re_search IGNORECASE amount_rx text = None \<Longrightarrow> extract_amount text = Inr None"
  by (simp add: extract_amount_def)

text \<open>
  C7 (amended). A load-time failure (path gone, source not a readable PDF) is passed on
  by both extractions. For a loadable document without page text the invoice record has
  every optional field null and no line items, and the report record has title, date
  and summary null and no metrics. For a loadable document whose first page has text in
  which no field pattern matches, and (for invoices) whose tables have string column
  labels without price keyword, the extraction returns a record in which the
  pattern-extracted fields are null and the line items, respectively the metrics, are
  empty, while vendor, respectively title, is the trimmed first line of the page-one
  text; the report keeps all tables.
\<close>

theorem no_pattern_extraction:
  "(open_pdf fs (pdf_path self) = Inl e \<longrightarrow>
      extract_invoice_data fs self = Inl e \<and> extract_report_data fs self = Inl e) \<and>
   (open_pdf fs (pdf_path self) = Inr ps \<and> extract_text fs self = Inr [] \<longrightarrow>
      extract_invoice_data fs self = Inr empty_invoice) \<and>
   (open_pdf fs (pdf_path self) = Inr ps \<and> extract_text fs self = Inr (text # rest) \<and>
    extract_tables fs self = Inr ts \<and> no_invoice_pattern text \<and> list_all no_price_table ts \<longrightarrow>
      extract_invoice_data fs self =
        Inr \<lparr>invoice_number = None, invoice_date = None, total_amount = None,
             vendor = Some (strip (takeWhile (\<lambda>c. c \<noteq> newline) text)), line_items = []\<rparr>) \<and>
   (open_pdf fs (pdf_path self) = Inr ps \<and> extract_text fs self = Inr [] \<and>
    extract_tables fs self = Inr ts \<longrightarrow>
      extract_report_data fs self =
        Inr \<lparr>title = None, report_date = None, summary = None, key_metrics = [], tables = ts\<rparr>) \<and>
   (open_pdf fs (pdf_path self) = Inr ps \<and> extract_text fs self = Inr (text # rest) \<and>
    extract_tables fs self = Inr ts \<and> no_report_pattern text \<longrightarrow>
      extract_report_data fs self =
        Inr \<lparr>title = Some (strip (takeWhile (\<lambda>c. c \<noteq> newline) text)), report_date = None,
             summary = None, key_metrics = [], tables = ts\<rparr>)"
proof (intro conjI impI)
  assume "open_pdf fs (pdf_path self) = Inl e"
  then show "extract_invoice_data fs self = Inl e" "extract_report_data fs self = Inl e"
    by (simp_all add: extract_invoice_data_def extract_report_data_def extract_text_def)
next
  assume "open_pdf fs (pdf_path self) = Inr ps \<and> extract_text fs self = Inr []"
  then show "extract_invoice_data fs self = Inr empty_invoice"
    by (simp add: extract_invoice_data_def)
next
  assume a: "open_pdf fs (pdf_path self) = Inr ps \<and> extract_text fs self = Inr (text # rest) \<and>
    extract_tables fs self = Inr ts \<and> no_invoice_pattern text \<and> list_all no_price_table ts"
  then have "collect_line_items ts = Inr []" by (simp add: collect_no_price)
  moreover from a have "extract_amount text = Inr None"
    by (simp add: no_invoice_pattern_def extract_amount_none)
  ultimately show "extract_invoice_data fs self =
        Inr \<lparr>invoice_number = None, invoice_date = None, total_amount = None,
             vendor = Some (strip (takeWhile (\<lambda>c. c \<noteq> newline) text)), line_items = []\<rparr>"
    using a by (simp add: extract_invoice_data_def no_invoice_pattern_def first_line_eq)
next
  assume "open_pdf fs (pdf_path self) = Inr ps \<and> extract_text fs self = Inr [] \<and>
    extract_tables fs self = Inr ts"
  then show "extract_report_data fs self =
        Inr \<lparr>title = None, report_date = None, summary = None, key_metrics = [], tables = ts\<rparr>"
    by (simp add: extract_report_data_def)
next
  assume a: "open_pdf fs (pdf_path self) = Inr ps \<and> extract_text fs self = Inr (text # rest) \<and>
    extract_tables fs self = Inr ts \<and> no_report_pattern text"
  then have "extract_key_metrics text = []"
    by (simp add: no_report_pattern_def key_metrics_none)
  then show "extract_report_data fs self =
        Inr \<lparr>title = Some (strip (takeWhile (\<lambda>c. c \<noteq> newline) text)), report_date = None,
             summary = None, key_metrics = [], tables = ts\<rparr>"
    using a by (simp add: extract_report_data_def no_report_pattern_def first_line_eq)
qed

theorem no_pattern_extraction_witness:
  "open_pdf invalid_fs (pdf_path a_pdf) = Inl LoadError \<and>
   extract_invoice_data invalid_fs a_pdf = Inl LoadError \<and>
   extract_report_data invalid_fs a_pdf = Inl LoadError \<and>
   extract_text no_text_fs a_pdf = Inr [] \<and>
   extract_invoice_data no_text_fs a_pdf = Inr empty_invoice \<and>
   extract_report_data no_text_fs a_pdf =
     Inr \<lparr>title = None, report_date = None, summary = None, key_metrics = [], tables = []\<rparr> \<and>
   no_invoice_pattern plain_text \<and> no_report_pattern plain_text \<and>
   extract_invoice_data plain_fs a_pdf =
     Inr \<lparr>invoice_number = None, invoice_date = None, total_amount = None,
          vendor = Some ''hello'', line_items = []\<rparr> \<and>
   extract_report_data plain_fs a_pdf =
     Inr \<lparr>title = Some ''hello'', report_date = None, summary = None, key_metrics = [],
          tables = []\<rparr>"
proof -
  have invalid: "open_pdf invalid_fs (pdf_path a_pdf) = Inl LoadError"
    by code_simp
  have no_text: "open_pdf no_text_fs (pdf_path a_pdf) = Inr [\<lparr>page_text = [], page_tables = []\<rparr>]"
    "extract_text no_text_fs a_pdf = Inr []" "extract_tables no_text_fs a_pdf = Inr []"
    by code_simp+
  have plain: "open_pdf plain_fs (pdf_path a_pdf) = Inr [\<lparr>page_text = plain_text, page_tables = []\<rparr>]"
    "extract_text plain_fs a_pdf = Inr [plain_text]" "extract_tables plain_fs a_pdf = Inr []"
    by code_simp+
  have none: "no_invoice_pattern plain_text" "no_report_pattern plain_text"
    by code_simp+
  have line: "strip (takeWhile (\<lambda>c. c \<noteq> newline) plain_text) = ''hello''"
    by code_simp
  show ?thesis
    using no_pattern_extraction [of invalid_fs a_pdf LoadError]
          no_pattern_extraction [of no_text_fs a_pdf _ "[\<lparr>page_text = [], page_tables = []\<rparr>]" _ _ "[]"]
          no_pattern_extraction [of plain_fs a_pdf _ "[\<lparr>page_text = plain_text, page_tables = []\<rparr>]"
             plain_text "[]" "[]"]
          invalid no_text plain none line
    by simp
qed

text \<open>A page that holds only the word \<open>hello\<close>: no pattern matches, and the vendor of the
  record is set.\<close>

theorem all_fields_null_counterexample:
  "no_invoice_pattern plain_text \<and>
   extract_invoice_data plain_fs a_pdf =
     Inr \<lparr>invoice_number = None, invoice_date = None, total_amount = None,
          vendor = Some ''hello'', line_items = []\<rparr> \<and>
   extract_report_data plain_fs a_pdf =
     Inr \<lparr>title = Some ''hello'', report_date = None, summary = None, key_metrics = [],
          tables = []\<rparr>"
  by code_simp

section \<open>Total amount of an invoice\<close>

text \<open>
  C4 (amended). The amount pattern is one alternation, searched once from the left: the
  match is the leftmost position at which either a \<open>Total\<close>-labelled number or a bare
  dollar-prefixed number matches. A \<open>Total\<close>-labelled number gives the amount only if no
  bare dollar number starts before it; a bare dollar number that stands earlier in the
  text wins. Among the matches of one kind the first one counts. Without any match the
  amount stays unset. The amount of the invoice record is the result of this step.
\<close>

theorem amount_leftmost_match:
  "extract_amount text =
     (case (re_search IGNORECASE total_alt text, re_search IGNORECASE dollar_alt text) of
        (None, None) \<Rightarrow> Inr None
      | (Some t, None) \<Rightarrow> amount_of_match t
      | (None, Some d) \<Rightarrow> amount_of_match d
      | (Some t, Some d) \<Rightarrow>
          if start t \<le> start d then amount_of_match t else amount_of_match d) \<and>
   (extract_text fs self = Inr (text # others) \<and> extract_invoice_data fs self = Inr d \<longrightarrow>
      extract_amount text = Inr (total_amount d))"
proof
  show "extract_amount text =
     (case (re_search IGNORECASE total_alt text, re_search IGNORECASE dollar_alt text) of
        (None, None) \<Rightarrow> Inr None
      | (Some t, None) \<Rightarrow> amount_of_match t
      | (None, Some d) \<Rightarrow> amount_of_match d
      | (Some t, Some d) \<Rightarrow>
          if start t \<le> start d then amount_of_match t else amount_of_match d)"
    by (simp add: extract_amount_def amount_rx_def re_search_def search_Alt split: option.splits)
  show "extract_text fs self = Inr (text # others) \<and> extract_invoice_data fs self = Inr d \<longrightarrow>
      extract_amount text = Inr (total_amount d)"
    by (auto simp add: extract_invoice_data_def Let_def split: sum.splits)
qed

theorem amount_leftmost_match_witness:
  "extract_amount fee_first_text = Inr (Some 5)"
proof -
  have pages: "extract_text fee_first_fs a_pdf = Inr [fee_first_text]" by code_simp
  have data: "extract_invoice_data fee_first_fs a_pdf =
     Inr \<lparr>invoice_number = None, invoice_date = None, total_amount = Some 5,
          vendor = Some ''Fee $5.00 Total: $100.00'', line_items = []\<rparr>"
    by code_simp
  have "extract_text fee_first_fs a_pdf = Inr (fee_first_text # []) \<and>
        extract_invoice_data fee_first_fs a_pdf =
          Inr \<lparr>invoice_number = None, invoice_date = None, total_amount = Some 5,
               vendor = Some ''Fee $5.00 Total: $100.00'', line_items = []\<rparr> \<longrightarrow>
        extract_amount fee_first_text =
          Inr (total_amount \<lparr>invoice_number = None, invoice_date = None, total_amount = Some 5,
               vendor = Some ''Fee $5.00 Total: $100.00'', line_items = []\<rparr>)"
    using amount_leftmost_match [of fee_first_text fee_first_fs a_pdf "[]"
        "\<lparr>invoice_number = None, invoice_date = None, total_amount = Some 5,
          vendor = Some ''Fee $5.00 Total: $100.00'', line_items = []\<rparr>"]
    by (rule conjunct2)
  with pages data show ?thesis by simp
qed

text \<open>The text \<open>Fee $5.00 Total: $100.00\<close>: the \<open>Total\<close> label matches at position 10 with
  the number 100.00, and yet the amount of the record is 5, from the bare dollar number
  that stands before it.\<close>

theorem total_label_counterexample:
  "map_option (\<lambda>m. (start m, group m 1)) (re_search IGNORECASE total_alt fee_first_text) =
     Some (10, Some ''100.00'') \<and>
   extract_invoice_data fee_first_fs a_pdf =
     Inr \<lparr>invoice_number = None, invoice_date = None, total_amount = Some 5,
          vendor = Some ''Fee $5.00 Total: $100.00'', line_items = []\<rparr>"
  by code_simp

section \<open>Key metrics of a report\<close>

lemma number_four_digits:
  assumes "is_digit d1" "is_digit d2" "is_digit d3" "is_digit d4"
  shows "\<exists>more. rx_match no_flags number_rx (d1 # d2 # d3 # d4 # rest, g) = (d4 # rest, g) # more"
  using assms
  by (simp add: number_rx_def Opt_def eval_nat_numeral in_class_no_flags digit_not_punct
      rx_match.simps(6))

lemma colon_not_label: "\<not> in_class no_flags label_class (CHR '':'')"
  by (simp add: in_class_no_flags label_class_def is_space_def code_def)

lemma space_class: "in_class no_flags [Space] c = is_space c"
  by (simp add: in_class_no_flags)

lemma best_number_four_digits:
  "is_digit d1 \<Longrightarrow> is_digit d2 \<Longrightarrow> is_digit d3 \<Longrightarrow> is_digit d4 \<Longrightarrow>
   best no_flags number_rx (d1 # d2 # d3 # d4 # rest, g) = Some (d4 # rest, g)"
  using number_four_digits [of d1 d2 d3 d4 rest g] by (simp add: best_iff)

lemma metric_first_match:
  assumes label: "label \<noteq> []" "list_all (in_class no_flags label_class) label"
    and sp: "list_all is_space sp"
    and dollar: "dollar = [] \<or> dollar = ''$''"
    and digits: "is_digit d1" "is_digit d2" "is_digit d3" "is_digit d4"
  shows "best no_flags metric_rx
           (label @ CHR '':'' # sp @ dollar @ d1 # d2 # d3 # d4 # rest, Map.empty) =
         Some (d4 # rest, [1 \<mapsto> label, 2 \<mapsto> [d1, d2, d3]])"
proof -
  let ?ds = "d1 # d2 # d3 # d4 # rest"
  let ?R = "sp @ dollar @ ?ds"
  let ?g1 = "[1 \<mapsto> label]"
  have "best no_flags (Plus (Cls label_class)) (label @ CHR '':'' # ?R, Map.empty) =
        Some (CHR '':'' # ?R, Map.empty)"
    using label by (intro best_Plus_class) (simp_all add: colon_not_label)
  from best_Grp [OF this, of 1]
  have s1: "best no_flags (Grp 1 (Plus (Cls label_class))) (label @ CHR '':'' # ?R, Map.empty) =
        Some (CHR '':'' # ?R, ?g1)"
    by simp
  have s2: "best no_flags (Cls [Single CHR '':'']) (CHR '':'' # ?R, ?g1) = Some (?R, ?g1)"
    by (intro best_Cls) (simp add: in_class_no_flags)
  have nsp: "case dollar @ ?ds of [] \<Rightarrow> True | c # _ \<Rightarrow> \<not> in_class no_flags [Space] c"
  proof -
    have "\<not> is_space (CHR ''$'')" by (simp add: is_space_def code_def)
    moreover have "\<not> is_space d1" using digits(1) by (rule digit_not_punct)
    ultimately show ?thesis using dollar by (auto simp add: space_class)
  qed
  have "list_all (in_class no_flags [Space]) sp"
    using sp by (simp add: space_class [abs_def])
  from best_Star_class [OF this nsp]
  have s3: "best no_flags (Star (Cls [Space])) (?R, ?g1) = Some (dollar @ ?ds, ?g1)" .
  have s4: "best no_flags (Opt (Cls [Single CHR ''$''])) (dollar @ ?ds, ?g1) = Some (?ds, ?g1)"
  proof (cases "dollar = []")
    case True
    have "rx_match no_flags (Cls [Single CHR ''$'']) (?ds, ?g1) = []"
      using digits(1) by (simp add: in_class_no_flags digit_not_punct)
    from best_Opt_skip [OF this] True show ?thesis by simp
  next
    case False
    with dollar have "dollar = ''$''" by simp
    moreover have "best no_flags (Cls [Single CHR ''$'']) (CHR ''$'' # ?ds, ?g1) = Some (?ds, ?g1)"
      by (intro best_Cls) (simp add: in_class_no_flags)
    ultimately show ?thesis using best_Opt_take by simp
  qed
  from best_Grp [OF best_number_four_digits [OF digits, of rest ?g1], of 2]
  have s5: "best no_flags (Grp 2 number_rx) (?ds, ?g1) =
        Some (d4 # rest, [1 \<mapsto> label, 2 \<mapsto> [d1, d2, d3]])"
    by simp
  show ?thesis
    unfolding metric_rx_def
    by (intro best_Seq [OF s1] best_Seq [OF s2] best_Seq [OF s3] best_Seq [OF s4] s5)
qed


lemma metric_no_match_on_digits:
  "list_all is_digit s \<Longrightarrow> re_search_from no_flags metric_rx pos s = None"
proof (induction s arbitrary: pos)
  case Nil
  show ?case by (simp add: metric_rx_def Plus_def)
next
  case (Cons c t)
  then show ?case by (simp add: metric_rx_def Plus_def digit_not_label)
qed

lemma py_float_three_digits:
  assumes "is_digit d1" "is_digit d2" "is_digit d3"
  shows "py_float (replace CHR '','' [] [d1, d2, d3]) = Some (real (nat_of_digits [d1, d2, d3]))"
  using assms by (simp add: py_float_def replace_def digit_not_punct)

lemma report_key_metrics:
  "extract_text fs self = Inr (text # others) \<Longrightarrow>
   \<exists>d. extract_report_data fs self = Inr d \<and> key_metrics d = extract_key_metrics text"
  by (auto simp add: extract_report_data_def extract_text_def extract_tables_def Let_def
      split: sum.splits)

text \<open>
  C10. The number pattern of the metric extraction is not anchored at the end of the
  number. For a text that consists of a label (letters and whitespace), a colon,
  optional whitespace, an optional dollar sign and more than three digits without
  separators, there is exactly one match; it ends after the third digit, the stored
  metric value is the number made of the first three digits, under the trimmed label,
  and the remaining digits are dropped: they produce no entry and no error. The report
  extraction returns exactly this metric for a document whose first page is that text.
  Whatever follows the digits in a longer text, the first match is the same and the
  scan goes on at the fourth digit.
\<close>

theorem metric_digits_dropped:
  assumes "label \<noteq> []" "list_all (in_class no_flags label_class) label"
    and "list_all is_space sp" "dollar = [] \<or> dollar = ''$''"
    and "list_all is_digit ds" "3 < length ds"
    and "text = label @ '':'' @ sp @ dollar @ ds"
  shows "finditer no_flags metric_rx text =
           [\<lparr>start = 0, matched = label @ '':'' @ sp @ dollar @ take 3 ds,
             group = [1 \<mapsto> label, 2 \<mapsto> take 3 ds]\<rparr>] \<and>
         extract_key_metrics text = [(strip label, Number (real (nat_of_digits (take 3 ds))))] \<and>
         (extract_text fs self = Inr (text # others) \<longrightarrow>
            (\<exists>d. extract_report_data fs self = Inr d \<and>
                 key_metrics d = [(strip label, Number (real (nat_of_digits (take 3 ds))))])) \<and>
         finditer no_flags metric_rx (text @ follow) =
           \<lparr>start = 0, matched = label @ '':'' @ sp @ dollar @ take 3 ds,
            group = [1 \<mapsto> label, 2 \<mapsto> take 3 ds]\<rparr> #
           finditer_from no_flags metric_rx (length (label @ '':'' @ sp @ dollar @ take 3 ds))
             (drop 3 ds @ follow)"
proof -
  from assms(6) obtain d1 d2 d3 d4 rest where ds: "ds = d1 # d2 # d3 # d4 # rest"
    by (auto simp add: Suc_length_conv numeral_3_eq_3 Suc_less_eq2 length_Suc_conv
        dest!: Suc_lessD elim!: less_natE) 
  from assms(5) ds have dig: "is_digit d1" "is_digit d2" "is_digit d3" "is_digit d4"
    and tail: "list_all is_digit (d4 # rest)" by simp_all
  let ?pre = "label @ CHR '':'' # sp @ dollar @ [d1, d2, d3]"
  let ?g = "[1 \<mapsto> label, 2 \<mapsto> [d1, d2, d3]]"
  have split_text: "text = ?pre @ d4 # rest" using assms(7) ds by simp
  have "best no_flags metric_rx (?pre @ d4 # rest, Map.empty) = Some (d4 # rest, ?g)"
    using metric_first_match [OF assms(1-4) dig, of rest] by simp
  from finditer_step [OF this, of 0]
  have "finditer_from no_flags metric_rx 0 (?pre @ d4 # rest) =
          \<lparr>start = 0, matched = ?pre, group = ?g\<rparr> #
          finditer_from no_flags metric_rx (0 + length ?pre) (d4 # rest)"
    by simp
  moreover have "finditer_from no_flags metric_rx (0 + length ?pre) (d4 # rest) = []"
    using tail by (intro finditer_none metric_no_match_on_digits)
  ultimately have it: "finditer no_flags metric_rx text = [\<lparr>start = 0, matched = ?pre, group = ?g\<rparr>]"
    unfolding finditer_def split_text by simp
  have km: "extract_key_metrics text = [(strip label, Number (real (nat_of_digits [d1, d2, d3])))]"
    using py_float_three_digits [OF dig(1-3)]
    by (simp add: extract_key_metrics_def it add_metric_def Let_def)
  have "best no_flags metric_rx (?pre @ d4 # rest @ follow, Map.empty) =
          Some (d4 # rest @ follow, ?g)"
    using metric_first_match [OF assms(1-4) dig, of "rest @ follow"] by simp
  from finditer_step [OF this, of 0]
  have "finditer_from no_flags metric_rx 0 (?pre @ d4 # rest @ follow) =
          \<lparr>start = 0, matched = ?pre, group = ?g\<rparr> #
          finditer_from no_flags metric_rx (length ?pre) (d4 # rest @ follow)"
    by simp
  then have more: "finditer no_flags metric_rx (text @ follow) =
           \<lparr>start = 0, matched = label @ '':'' @ sp @ dollar @ take 3 ds,
            group = [1 \<mapsto> label, 2 \<mapsto> take 3 ds]\<rparr> #
           finditer_from no_flags metric_rx (length (label @ '':'' @ sp @ dollar @ take 3 ds))
             (drop 3 ds @ follow)"
    unfolding finditer_def split_text using ds by simp
  from it km ds more show ?thesis
    using report_key_metrics [of fs self "text" others] by auto
qed

theorem metric_digits_dropped_witness:
  "extract_key_metrics revenue_text = [(''Revenue'', Number 123)] \<and>
   (\<exists>d. extract_report_data revenue_fs a_pdf = Inr d \<and>
        key_metrics d = [(''Revenue'', Number 123)])"
proof -
  have h1: "''Revenue'' \<noteq> []" by simp
  have h2: "list_all (in_class no_flags label_class) ''Revenue''" by code_simp
  have h3: "list_all is_space '' ''" by code_simp
  have h4: "[] = [] \<or> [] = ''$''" by simp
  have h5: "list_all is_digit ''1234''" by code_simp
  have h6: "3 < length ''1234''" by simp
  have h7: "revenue_text = ''Revenue'' @ '':'' @ '' '' @ [] @ ''1234''"
    by (simp add: revenue_text_def)
  have label: "strip ''Revenue'' = ''Revenue''" by code_simp
  have "nat_of_digits (take 3 ''1234'') = 123" by code_simp
  then have number: "real (nat_of_digits (take 3 ''1234'')) = 123" by simp
  have pages: "extract_text revenue_fs a_pdf = Inr [revenue_text]" by code_simp
  show ?thesis
    using metric_digits_dropped [OF h1 h2 h3 h4 h5 h6 h7, of revenue_fs a_pdf "[]"]
    unfolding label number using pages by simp
qed

section \<open>Row index of the invoice frame\<close>

text \<open>
  C3 (amended). \<^verbatim>\<open>process_invoice_data\<close> makes the invoice number the row index as soon
  as at least one record of a non-empty list has an invoice number; the rows stay
  labelled by position only when no record has one.
\<close>

theorem invoice_index_rule:
  "indexed_by_number (fst (process_invoice_data self)) \<longleftrightarrow>
     list_ex (\<lambda>d. get_invoice_number d \<noteq> None) (data_list self)"
  by (auto simp add: indexed_by_number_def process_invoice_data_def Let_def isna_all_def
      list_all_iff list_ex_iff)

theorem invoice_index_rule_witness:
  "indexed_by_number (fst (process_invoice_data (new_processor
      [Invoice (empty_invoice\<lparr>invoice_number := Some ''A-1''\<rparr>)]))) \<and>
   \<not> indexed_by_number (fst (process_invoice_data (new_processor [Invoice empty_invoice])))"
  using invoice_index_rule [of "new_processor [Invoice (empty_invoice\<lparr>invoice_number := Some ''A-1''\<rparr>)]"]
        invoice_index_rule [of "new_processor [Invoice empty_invoice]"]
  by (simp add: new_processor_def get_invoice_number_def empty_invoice_def)

text \<open>Two records, the second without an invoice number: the column is not fully
  populated, and yet it becomes the index.\<close>

theorem invoice_index_counterexample:
  "indexed_by_number (fst (process_invoice_data (new_processor
      [Invoice (empty_invoice\<lparr>invoice_number := Some ''A-1''\<rparr>), Invoice empty_invoice]))) \<and>
   map get_invoice_number
      [Invoice (empty_invoice\<lparr>invoice_number := Some ''A-1''\<rparr>), Invoice empty_invoice]
     = [Some ''A-1'', None]"
  by (simp add: indexed_by_number_def process_invoice_data_def Let_def isna_all_def
      new_processor_def get_invoice_number_def empty_invoice_def)

section \<open>Date normalisation\<close>







section \<open>Export precondition\<close>

text \<open>
  C2 (amended). Saving to a delimited file or to a spreadsheet raises \<^verbatim>\<open>ValueError\<close>
  exactly when the processed frame is empty. That is the case for a new processor, and
  still the case after a tabulation of zero records, which leaves the processor as it
  was; after a tabulation of at least one record the frame is not empty. The JSON export
  writes the original record list and has no precondition: it never raises.
\<close>

theorem export_precondition:
  "save_to_csv (new_processor ds) = Inl ValueError \<and>
   save_to_excel (new_processor ds) = Inl ValueError \<and>
   export_as_json self = Inr (JsonFile (data_list self)) \<and>
   (save_to_csv self = Inl ValueError \<longleftrightarrow> frame_empty (processed_data self)) \<and>
   (save_to_excel self = Inl ValueError \<longleftrightarrow> frame_empty (processed_data self)) \<and>
   (data_list self = [] \<longrightarrow>
      snd (process_invoice_data self) = self \<and> snd (process_report_data self) = self) \<and>
   (data_list self \<noteq> [] \<longrightarrow>
      \<not> frame_empty (processed_data (snd (process_invoice_data self))) \<and>
      \<not> frame_empty (processed_data (snd (process_report_data self))))"
  by (simp add: save_to_csv_def save_to_excel_def export_as_json_def new_processor_def
      frame_empty_def process_invoice_data_def process_report_data_def Let_def)

theorem export_precondition_witness:
  "save_to_csv (new_processor [Invoice empty_invoice]) = Inl ValueError \<and>
   data_list (new_processor [Invoice empty_invoice]) \<noteq> [] \<and>
   \<not> frame_empty (processed_data (snd (process_invoice_data (new_processor [Invoice empty_invoice])))) \<and>
   data_list (new_processor []) = [] \<and>
   snd (process_invoice_data (new_processor [])) = new_processor []"
  using export_precondition [of "[Invoice empty_invoice]" "new_processor [Invoice empty_invoice]"]
        export_precondition [of "[]" "new_processor []"]
  by (simp add: new_processor_def)

text \<open>The claim as stated fails twice: before any tabulation the JSON export does not
  raise, and after a tabulation of zero records the two frame exports do raise.\<close>

theorem export_before_tabulate_counterexample:
  "export_as_json (new_processor []) = Inr (JsonFile []) \<and>
   save_to_csv (snd (process_invoice_data (new_processor []))) = Inl ValueError \<and>
   save_to_excel (snd (process_report_data (new_processor []))) = Inl ValueError"
  by (simp add: save_to_csv_def save_to_excel_def export_as_json_def new_processor_def
      frame_empty_def process_invoice_data_def process_report_data_def)

section \<open>Month-over-month change\<close>

lemma present_map: "present (map (map_option g) col) = map g (present col)"
  by (induction col) (auto simp add: present_def split: option.splits)

lemma length_monthly_sums:
  "length (monthly_sums A months amounts) = length (remdups (present months))"
  by (simp add: monthly_sums_def group_months_def)

lemma single_month_time_series:
  assumes "length (remdups (map to_period (present ts))) \<le> 1"
  shows "monthly_change (time_series A ts amounts ins) = monthly_change ins"
proof -
  have "length (monthly_sums A (map (map_option to_period) ts) amounts) \<le> 1"
    using assms by (simp add: length_monthly_sums present_map)
  then show ?thesis
    by (simp add: time_series_def Let_def)
qed

lemma pct_change_keys: "fst ` set (pct_change A xs) \<subseteq> fst ` set (tl xs)"
  by (induction A xs rule: pct_change.induct) auto

lemma distinct_monthly_sums: "distinct (map fst (monthly_sums A months amounts))"
  by (simp add: monthly_sums_def group_months_def comp_def)

lemma dropna_first:
  assumes "distinct (map fst totals)" "totals = (p, v) # rest"
  shows "p \<notin> fst ` set (dropna (pct_change_100 A totals))"
proof -
  have "fst ` set (pct_change A totals) \<subseteq> fst ` set rest"
    using pct_change_keys [of A totals] assms(2) by simp
  moreover have "p \<notin> fst ` set rest" using assms by auto
  ultimately show ?thesis
    using assms(2) by (auto simp add: dropna_def pct_change_100_def)
qed

lemma dropna_no_nan: "NaN \<notin> snd ` set (dropna xs)"
  by (auto simp add: dropna_def)

lemma time_series_change:
  assumes "monthly_change (time_series A ts amounts ins) = Some ch" "monthly_change ins = None"
  shows "\<exists>p v rest. monthly_totals (time_series A ts amounts ins) = Some ((p, v) # rest) \<and>
           p \<notin> fst ` set ch \<and> NaN \<notin> snd ` set ch"
proof -
  let ?totals = "monthly_sums A (map (map_option to_period) ts) amounts"
  from assms have len: "length ?totals > 1" and ch: "ch = dropna (pct_change_100 A ?totals)"
    by (auto simp add: time_series_def Let_def split: if_splits)
  from len obtain p v rest where tot: "?totals = (p, v) # rest"
    by (cases ?totals) auto
  have "p \<notin> fst ` set ch"
    unfolding ch using distinct_monthly_sums tot by (rule dropna_first)
  moreover have "monthly_totals (time_series A ts amounts ins) = Some ((p, v) # rest)"
    using len tot by (simp add: time_series_def Let_def)
  ultimately show ?thesis using dropna_no_nan [of "pct_change_100 A ?totals"] ch by blast
qed

text \<open>The blocks before the time series leave the monthly keys unset; the vendor
  block raises exactly when no amount is present.\<close>

lemma vendor_analysis_result:
  "vendor_analysis A vendors amounts ins = Inr r \<Longrightarrow> monthly_change r = monthly_change ins"
  by (auto simp add: vendor_analysis_def Let_def split: if_splits)

lemma vendor_analysis_returns:
  "(\<exists>r. vendor_analysis A vendors amounts ins = Inr r) \<longleftrightarrow> \<not> isna_all amounts"
  by (simp add: vendor_analysis_def Let_def)

lemma basic_statistics_change:
  "monthly_change (basic_statistics A amounts no_insights) = None"
  by (simp add: basic_statistics_def no_insights_def)

lemma analyze_invoices_cases:
  assumes "analyze_invoices A (InvoiceFrame f) = Inr ins"
  shows "monthly_change ins = None \<or>
         (\<exists>ts base. col_date f = Dates ts \<and> monthly_change base = None \<and>
            ins = time_series A ts (col_total_amount f) base)"
proof (cases "frame_empty (InvoiceFrame f)")
  case True
  with assms show ?thesis by (auto simp add: analyze_invoices_def no_insights_def)
next
  case False
  with assms obtain base where
    base: "vendor_analysis A (col_vendor f) (col_total_amount f)
             (basic_statistics A (col_total_amount f) no_insights) = Inr base"
    and ins: "ins = (case col_date f of Raw xs \<Rightarrow> base
                     | Dates ts \<Rightarrow> time_series A ts (col_total_amount f) base)"
    by (auto simp add: analyze_invoices_def Let_def split: sum.splits date_column.splits)
  from vendor_analysis_result [OF base] have none: "monthly_change base = None"
    by (simp add: basic_statistics_change)
  show ?thesis
  proof (cases "col_date f")
    case (Raw xs)
    with ins none show ?thesis by simp
  next
    case (Dates ts)
    with ins none show ?thesis by auto
  qed
qed

lemma analyze_invoices_returns:
  "(\<exists>r. analyze_invoices A (InvoiceFrame f) = Inr r) \<longleftrightarrow>
     frame_empty (InvoiceFrame f) \<or> \<not> isna_all (col_total_amount f)"
proof (cases "frame_empty (InvoiceFrame f)")
  case True
  then show ?thesis by (simp add: analyze_invoices_def)
next
  case False
  show ?thesis
  proof (cases "isna_all (col_total_amount f)")
    case True
    with False show ?thesis
      by (simp add: analyze_invoices_def Let_def vendor_analysis_def)
  next
    case nn: False
    with vendor_analysis_returns [of A "col_vendor f" "col_total_amount f"
        "basic_statistics A (col_total_amount f) no_insights"]
    obtain base where "vendor_analysis A (col_vendor f) (col_total_amount f)
             (basic_statistics A (col_total_amount f) no_insights) = Inr base" by blast
    with False nn show ?thesis
      by (cases "col_date f") (simp_all add: analyze_invoices_def Let_def)
  qed
qed

text \<open>
  C8. Whenever the analysis of an invoice frame returns a report and the parsed dates of
  the frame fall within one calendar month (or there are none), the report has no
  \<^verbatim>\<open>monthly_change\<close> entry at all. The analysis returns a report exactly when the frame
  has no rows or at least one amount is present (otherwise the vendor block raises
  before the monthly block is reached). Whenever the entry is present, the first month
  of the monthly totals has no entry in it, and no entry is \<^verbatim>\<open>NaN\<close>. All of this holds
  for every floating-point arithmetic.
\<close>

theorem monthly_change_absent:
  "(length (remdups (map to_period (parsed_dates (col_date f)))) \<le> 1 \<and>
    analyze_invoices A (InvoiceFrame f) = Inr ins \<longrightarrow> monthly_change ins = None) \<and>
   ((\<exists>r. analyze_invoices A (InvoiceFrame f) = Inr r) \<longleftrightarrow>
      frame_empty (InvoiceFrame f) \<or> \<not> isna_all (col_total_amount f)) \<and>
   (analyze_invoices A (InvoiceFrame f) = Inr ins \<and> monthly_change ins = Some ch \<longrightarrow>
     (\<exists>p v rest. monthly_totals ins = Some ((p, v) # rest) \<and>
        p \<notin> fst ` set ch \<and> NaN \<notin> snd ` set ch))"
proof (intro conjI impI)
  assume a: "length (remdups (map to_period (parsed_dates (col_date f)))) \<le> 1 \<and>
    analyze_invoices A (InvoiceFrame f) = Inr ins"
  then have ins: "analyze_invoices A (InvoiceFrame f) = Inr ins" by simp
  from analyze_invoices_cases [OF ins] show "monthly_change ins = None"
  proof
    assume "monthly_change ins = None"
    then show ?thesis .
  next
    assume "\<exists>ts base. col_date f = Dates ts \<and> monthly_change base = None \<and>
            ins = time_series A ts (col_total_amount f) base"
    then obtain ts base where ts: "col_date f = Dates ts" and base: "monthly_change base = None"
      and eq: "ins = time_series A ts (col_total_amount f) base" by blast
    from a ts have "length (remdups (map to_period (present ts))) \<le> 1"
      by (simp add: parsed_dates_def)
    from single_month_time_series [OF this] eq base show ?thesis by simp
  qed
next
  show "(\<exists>r. analyze_invoices A (InvoiceFrame f) = Inr r) \<longleftrightarrow>
      frame_empty (InvoiceFrame f) \<or> \<not> isna_all (col_total_amount f)"
    by (rule analyze_invoices_returns)
next
  assume a: "analyze_invoices A (InvoiceFrame f) = Inr ins \<and> monthly_change ins = Some ch"
  then have ins: "analyze_invoices A (InvoiceFrame f) = Inr ins" by simp
  from analyze_invoices_cases [OF ins] a
  obtain ts base where "monthly_change base = None"
    "ins = time_series A ts (col_total_amount f) base" by auto
  with a show "\<exists>p v rest. monthly_totals ins = Some ((p, v) # rest) \<and>
        p \<notin> fst ` set ch \<and> NaN \<notin> snd ` set ch"
    using time_series_change by blast
qed

theorem monthly_change_absent_witness:
  "length (remdups (map to_period (parsed_dates (col_date march_frame)))) \<le> 1 \<and>
   (\<exists>ins. analyze_invoices exact_arith (InvoiceFrame march_frame) = Inr ins \<and>
      monthly_change ins = None) \<and>
   (\<exists>ins. analyze_invoices exact_arith (InvoiceFrame march_april_frame) = Inr ins \<and>
      monthly_change ins = Some [((2024, 4), Fin (- 50))] \<and>
      (\<exists>p v rest. monthly_totals ins = Some ((p, v) # rest) \<and>
         p \<notin> fst ` set [((2024, 4), Fin (- 50))] \<and>
         NaN \<notin> snd ` set [((2024::nat, 4::nat), Fin (- 50))]))"
proof -
  let ?ins = "\<lparr>error_key = False, total_spend = Some (Fin 150),
        average_invoice_amount = Some (Fin 75),
        max_invoice_amount = Some (Fin 100),
        min_invoice_amount = Some (Fin 50),
        vendor_count = Some 0, top_vendors = Some [], top_vendors_by_spend = Some [],
        monthly_totals = Some [((2024, 3), 100), ((2024, 4), 50)],
        monthly_change = Some [((2024, 4), Fin (- 50))]\<rparr>"
  have one: "length (remdups (map to_period (parsed_dates (col_date march_frame)))) \<le> 1"
    by (simp add: march_frame_def parsed_dates_def present_def to_period_def)
  have amounts: "\<not> isna_all (col_total_amount march_frame)"
    by (simp add: march_frame_def isna_all_def)
  from monthly_change_absent [of march_frame exact_arith] amounts
  obtain r where r: "analyze_invoices exact_arith (InvoiceFrame march_frame) = Inr r"
    by blast
  from monthly_change_absent [of march_frame exact_arith r] one r
  have single: "monthly_change r = None" by blast
  have two: "analyze_invoices exact_arith (InvoiceFrame march_april_frame) = Inr ?ins"
    by (simp add: analyze_invoices_def march_frame_def march_april_frame_def frame_empty_def
        no_insights_def Let_def col_sum_def col_mean_def col_max_def col_min_def present_def
        fnum_of_def time_series_def monthly_sums_def group_months_def to_period_def
        period_key_def pct_change_100_def dropna_def pct_def basic_statistics_def
        vendor_analysis_def value_counts_def vendor_sums_def nlargest_def isna_all_def
        exact_arith_def exact_mean_def)
  from monthly_change_absent [of march_april_frame exact_arith ?ins "[((2024, 4), Fin (- 50))]"] two
  have "\<exists>p v rest. monthly_totals ?ins = Some ((p, v) # rest) \<and>
         p \<notin> fst ` set [((2024, 4), Fin (- 50))] \<and>
         NaN \<notin> snd ` set [((2024::nat, 4::nat), Fin (- 50))]"
    by simp
  with one r single two show ?thesis by auto
qed

section \<open>Anomaly detection\<close>

text \<open>What a rounding leaves alone, and what monotonicity gives from it.\<close>

lemma rounding_quarter:
  "rounding r \<Longrightarrow> \<bar>n\<bar> \<le> 4000000 \<Longrightarrow> r (of_int n / 4) = of_int n / 4"
  by (simp add: rounding_def)

lemma rounding_fixed:
  assumes "rounding r"
  shows "r 792 = 792" "r (- 198) = - 198" "r 2 = 2" "r (7 / 4) = 7 / 4"
    "r 0 = 0" "r (- 1 / 2) = - 1 / 2"
  using rounding_quarter [OF assms, of 3168] rounding_quarter [OF assms, of "- 792"]
    rounding_quarter [OF assms, of 8] rounding_quarter [OF assms, of 7]
    rounding_quarter [OF assms, of 0] rounding_quarter [OF assms, of "- 2"]
  by simp_all

lemma rounding_mono: "rounding r \<Longrightarrow> x \<le> y \<Longrightarrow> r x \<le> r y"
  by (simp add: rounding_def mono_def)

text \<open>The two z-scores of the sample column, for a mean of 208 and a deviation between
  396 and 450.\<close>

lemma z_score_outlier:
  assumes "rounding (rnd A)" "396 \<le> s" "s \<le> 450"
  shows "z_score A 208 s 1000 = rnd A (792 / s)"
    and "7 / 4 \<le> z_score A 208 s 1000" and "z_score A 208 s 1000 \<le> 2"
proof -
  show eq: "z_score A 208 s 1000 = rnd A (792 / s)"
    using rounding_fixed(1) [OF assms(1)] by (simp add: z_score_def)
  have "7 / 4 \<le> 792 / s" using assms(2,3) by (simp add: field_simps)
  from rounding_mono [OF assms(1) this] show "7 / 4 \<le> z_score A 208 s 1000"
    using rounding_fixed(4) [OF assms(1)] eq by simp
  have "792 / s \<le> 2" using assms(2) by (simp add: field_simps)
  from rounding_mono [OF assms(1) this] show "z_score A 208 s 1000 \<le> 2"
    using rounding_fixed(3) [OF assms(1)] eq by simp
qed

lemma z_score_regular:
  assumes "rounding (rnd A)" "396 \<le> s"
  shows "- 1 / 2 \<le> z_score A 208 s 10" and "z_score A 208 s 10 \<le> 0"
proof -
  have eq: "z_score A 208 s 10 = rnd A (- 198 / s)"
    using rounding_fixed(2) [OF assms(1)] by (simp add: z_score_def)
  have "- 1 / 2 \<le> - 198 / s" using assms(2) by (simp add: field_simps)
  from rounding_mono [OF assms(1) this] show "- 1 / 2 \<le> z_score A 208 s 10"
    using rounding_fixed(6) [OF assms(1)] eq by simp
  have "- 198 / s \<le> 0" using assms(2) by (simp add: field_simps)
  from rounding_mono [OF assms(1) this] show "z_score A 208 s 10 \<le> 0"
    using rounding_fixed(5) [OF assms(1)] eq by simp
qed

text \<open>A column whose deviation is exactly zero, or not a number, yields nothing.\<close>

lemma zero_std_anomalies:
  "col_std A col = Some 0 \<Longrightarrow> column_anomalies A labels column col threshold = []"
  by (simp add: column_anomalies_def split: option.splits)

lemma outlier_labels: "row_labels outlier_frame = [Pos 0, Pos (Suc 0), Pos 2, Pos 3, Pos 4]"
  by (simp add: row_labels_def outlier_frame_def upt_rec)

lemma outlier_columns:
  "numeric_columns outlier_frame =
     [(''total_amount'', [Some 10, Some 10, Some 10, Some 10, Some 1000]),
      (''line_item_count'', [Some 0, Some 0, Some 0, Some 0, Some 0])]"
  by (simp add: numeric_columns_def outlier_frame_def isna_all_def)

lemma outlier_frame_rows: "\<not> frame_empty outlier_frame"
  by (simp add: frame_empty_def outlier_frame_def)

lemma outlier_counts:
  assumes "lib_std A [0, 0, 0, 0, 0] = 0"
  shows "column_anomalies A labels ''line_item_count''
           [Some 0, Some 0, Some 0, Some 0, Some 0] threshold = []"
  using assms by (intro zero_std_anomalies) (simp add: col_std_def present_def)

lemma outlier_amounts_2:
  assumes "rounding (rnd A)" "lib_mean A [10, 10, 10, 10, 1000] = 208"
    "lib_std A [10, 10, 10, 10, 1000] = s" "396 \<le> s" "s \<le> 450"
  shows "column_anomalies A [Pos 0, Pos (Suc 0), Pos 2, Pos 3, Pos 4] ''total_amount''
           [Some 10, Some 10, Some 10, Some 10, Some 1000] 2 = []"
proof -
  have m: "col_mean A [Some 10, Some 10, Some 10, Some 10, Some 1000] = Some 208"
    using assms(2) by (simp add: col_mean_def present_def)
  have d: "col_std A [Some 10, Some 10, Some 10, Some 10, Some 1000] = Some s"
    using assms(3) by (simp add: col_std_def present_def)
  have a: "\<not> 2 < \<bar>z_score A 208 s 1000\<bar>"
    using z_score_outlier(2,3) [OF assms(1,4,5)] by simp
  have b: "\<not> 2 < \<bar>z_score A 208 s 10\<bar>"
    using z_score_regular [OF assms(1,4)] by simp
  show ?thesis
    using assms(4) a b by (simp add: column_anomalies_def m d)
qed

lemma outlier_amounts_low:
  assumes "rounding (rnd A)" "lib_mean A [10, 10, 10, 10, 1000] = 208"
    "lib_std A [10, 10, 10, 10, 1000] = s" "396 \<le> s" "s \<le> 450"
  shows "column_anomalies A [Pos 0, Pos (Suc 0), Pos 2, Pos 3, Pos 4] ''total_amount''
           [Some 10, Some 10, Some 10, Some 10, Some 1000] (3 / 2) =
         [\<lparr>a_index = Pos 4, a_column = ''total_amount'', a_value = [Some 1000],
           a_z_score = [Some (rnd A (792 / s))], a_mean = 208, a_std = s\<rparr>]"
proof -
  have m: "col_mean A [Some 10, Some 10, Some 10, Some 10, Some 1000] = Some 208"
    using assms(2) by (simp add: col_mean_def present_def)
  have d: "col_std A [Some 10, Some 10, Some 10, Some 10, Some 1000] = Some s"
    using assms(3) by (simp add: col_std_def present_def)
  have a: "3 / 2 < \<bar>z_score A 208 s 1000\<bar>"
    using z_score_outlier(2) [OF assms(1,4,5)] by simp
  have b: "\<not> 3 / 2 < \<bar>z_score A 208 s 10\<bar>"
    using z_score_regular [OF assms(1,4)] by simp
  show ?thesis
    using assms(4) a b z_score_outlier(1) [OF assms(1,4,5)]
    by (simp add: column_anomalies_def m d loc_def)
qed

text \<open>The exact statistics of the sample column: the sample deviation lies in the range
  above, and so does the deviation over all points, which is its lower end.\<close>

lemma exact_outlier_mean: "exact_mean [10, 10, 10, 10, 1000] = 208"
  by (simp add: exact_mean_def)

lemma exact_outlier_std: "exact_std [10, 10, 10, 10, 1000] = sqrt 196020"
  by (simp add: exact_std_def exact_mean_def power2_eq_square)

lemma population_outlier_std: "spec_population_std [10, 10, 10, 10, 1000] = 396"
proof -
  have "spec_population_std [10, 10, 10, 10, 1000] = sqrt (396\<^sup>2)"
    by (simp add: spec_population_std_def exact_mean_def power2_eq_square)
  then show ?thesis by simp
qed

lemma sqrt_bounds: "396 \<le> sqrt 196020" "sqrt 196020 \<le> 450"
proof -
  have "sqrt (396\<^sup>2) \<le> sqrt 196020" by (subst real_sqrt_le_iff) simp
  then show "396 \<le> sqrt 196020" by simp
  have "sqrt 196020 \<le> sqrt (450\<^sup>2)" by (subst real_sqrt_le_iff) simp
  then show "sqrt 196020 \<le> 450" by simp
qed

lemma exact_rounding: "rounding (rnd exact_arith)"
  by (simp add: rounding_def exact_arith_def mono_def)

lemma exact_zero_std: "exact_std [0, 0, 0, 0, 0] = 0"
  by (simp add: exact_std_def exact_mean_def)

text \<open>
  C1 (amended). For the invoice frame whose amounts are 10, 10, 10, 10, 1000, and for
  every floating-point arithmetic whose rounding is monotone and leaves floats alone,
  whose mean of the amounts is 208 and whose deviation \<open>s\<close> of the amounts lies between
  396 and 450 (and whose deviation of five zeros is zero): \<^verbatim>\<open>get_anomalies\<close> with
  threshold 2.0 flags nothing, because the z-score of 1000 is 792 / \<open>s\<close>, at most 2, and
  the comparison is strict; with threshold 1.5 it flags exactly the value 1000, with
  z-score 792 / \<open>s\<close> rounded, mean 208 and deviation \<open>s\<close>. The exact sample deviation of the
  amounts (divisor \<open>n - 1\<close>, the one that \<^verbatim>\<open>Series.std()\<close> approximates) is the square root
  of 196020 and lies in that range. A column whose computed deviation is exactly zero
  is skipped and produces no entries.
\<close>

theorem sample_std_anomalies:
  "(rounding (rnd A) \<and> lib_mean A [10, 10, 10, 10, 1000] = 208 \<and>
    lib_std A [10, 10, 10, 10, 1000] = s \<and> 396 \<le> s \<and> s \<le> 450 \<and>
    lib_std A [0, 0, 0, 0, 0] = 0 \<longrightarrow>
      get_anomalies A outlier_frame 2 = [] \<and>
      get_anomalies A outlier_frame (3 / 2) =
        [\<lparr>a_index = Pos 4, a_column = ''total_amount'', a_value = [Some 1000],
          a_z_score = [Some (rnd A (792 / s))], a_mean = 208, a_std = s\<rparr>]) \<and>
   exact_std [10, 10, 10, 10, 1000] = sqrt 196020 \<and>
   396 \<le> sqrt 196020 \<and> sqrt 196020 \<le> 450 \<and>
   (col_std A col = Some 0 \<longrightarrow> column_anomalies A labels column col threshold = [])"
proof (intro conjI impI)
  assume a: "rounding (rnd A) \<and> lib_mean A [10, 10, 10, 10, 1000] = 208 \<and>
    lib_std A [10, 10, 10, 10, 1000] = s \<and> 396 \<le> s \<and> s \<le> 450 \<and>
    lib_std A [0, 0, 0, 0, 0] = 0"
  then have h: "rounding (rnd A)" "lib_mean A [10, 10, 10, 10, 1000] = 208"
    "lib_std A [10, 10, 10, 10, 1000] = s" "396 \<le> s" "s \<le> 450"
    and z: "lib_std A [0, 0, 0, 0, 0] = 0" by simp_all
  show "get_anomalies A outlier_frame 2 = []"
    by (simp add: get_anomalies_def outlier_frame_rows outlier_labels outlier_columns
        outlier_counts [OF z] outlier_amounts_2 [OF h])
  show "get_anomalies A outlier_frame (3 / 2) =
        [\<lparr>a_index = Pos 4, a_column = ''total_amount'', a_value = [Some 1000],
          a_z_score = [Some (rnd A (792 / s))], a_mean = 208, a_std = s\<rparr>]"
    by (simp add: get_anomalies_def outlier_frame_rows outlier_labels outlier_columns
        outlier_counts [OF z] outlier_amounts_low [OF h])
next
  show "exact_std [10, 10, 10, 10, 1000] = sqrt 196020" by (rule exact_outlier_std)
  show "396 \<le> sqrt 196020" "sqrt 196020 \<le> 450" by (rule sqrt_bounds)+
next
  assume "col_std A col = Some 0"
  then show "column_anomalies A labels column col threshold = []"
    by (rule zero_std_anomalies)
qed

theorem sample_std_anomalies_witness:
  "get_anomalies exact_arith outlier_frame 2 = [] \<and>
   get_anomalies exact_arith outlier_frame (3 / 2) =
     [\<lparr>a_index = Pos 4, a_column = ''total_amount'', a_value = [Some 1000],
       a_z_score = [Some (792 / sqrt 196020)], a_mean = 208, a_std = sqrt 196020\<rparr>] \<and>
   column_anomalies exact_arith [Pos 0, Pos 1] ''line_item_count'' [Some 3, Some 3] 2 = []"
proof -
  have h: "rounding (rnd exact_arith) \<and> lib_mean exact_arith [10, 10, 10, 10, 1000] = 208 \<and>
    lib_std exact_arith [10, 10, 10, 10, 1000] = sqrt 196020 \<and> 396 \<le> sqrt 196020 \<and>
    sqrt 196020 \<le> 450 \<and> lib_std exact_arith [0, 0, 0, 0, 0] = 0"
    using exact_rounding exact_outlier_mean exact_outlier_std sqrt_bounds exact_zero_std
    by (simp add: exact_arith_def)
  have c: "col_std exact_arith [Some 3, Some 3] = Some 0"
    by (simp add: col_std_def present_def exact_arith_def exact_std_def exact_mean_def)
  have r: "rnd exact_arith (792 / sqrt 196020) = 792 / sqrt 196020"
    by (simp add: exact_arith_def)
  show ?thesis
    using sample_std_anomalies [of exact_arith "sqrt 196020" "[Some 3, Some 3]"
        "[Pos 0, Pos 1]" "''line_item_count''" 2] h c r
    by simp
qed

text \<open>With threshold 2.0 the value 1000 is not flagged: the result is empty, with the
  exact sample deviation and with the deviation over all points alike.\<close>

theorem anomaly_flag_counterexample:
  "map a_value (get_anomalies exact_arith outlier_frame 2) \<noteq> [[Some 1000]] \<and>
   map a_value (get_anomalies spec_population_arith outlier_frame 2) \<noteq> [[Some 1000]]"
proof -
  have e: "rounding (rnd exact_arith)" "lib_mean exact_arith [10, 10, 10, 10, 1000] = 208"
    "lib_std exact_arith [10, 10, 10, 10, 1000] = sqrt 196020"
    using exact_rounding exact_outlier_mean exact_outlier_std by (simp_all add: exact_arith_def)
  have ez: "lib_std exact_arith [0, 0, 0, 0, 0] = 0"
    using exact_zero_std by (simp add: exact_arith_def)
  have p: "rounding (rnd spec_population_arith)"
    "lib_mean spec_population_arith [10, 10, 10, 10, 1000] = 208"
    "lib_std spec_population_arith [10, 10, 10, 10, 1000] = 396"
    using exact_rounding exact_outlier_mean population_outlier_std
    by (simp_all add: spec_population_arith_def exact_arith_def)
  have pz: "lib_std spec_population_arith [0, 0, 0, 0, 0] = 0"
    by (simp add: spec_population_arith_def spec_population_std_def exact_mean_def)
  have "get_anomalies exact_arith outlier_frame 2 = []"
    by (simp add: get_anomalies_def outlier_frame_rows outlier_labels outlier_columns
        outlier_counts [OF ez] outlier_amounts_2 [OF e sqrt_bounds])
  moreover have "get_anomalies spec_population_arith outlier_frame 2 = []"
    by (simp add: get_anomalies_def outlier_frame_rows outlier_labels outlier_columns
        outlier_counts [OF pz] outlier_amounts_2 [OF p])
  ultimately show ?thesis by simp
qed

end
